theory Spec2Isabelle
  imports Complex_Main "HOL-Library.AList"
begin

section \<open>Go values\<close>

text \<open>
  The dynamic values that an \<^verbatim>\<open>interface{}\<close> of the program can hold. A nil interface is
  \<open>None\<close> of \<open>go_any option\<close>. \<open>AFloat64\<close> is what \<^verbatim>\<open>encoding/json\<close> produces for a JSON
  number (finite values only, read as reals), \<open>AInt64\<close> the identifiers that the clients
  generate. Go maps are written as association lists; a nil map and an empty map are both
  \<open>[]\<close> (the code only reads them). \<open>AStruct\<close> carries the type name and the fields of a
  struct value, \<open>APtr\<close> a pointer (\<open>APtr None\<close> is a typed nil pointer, which is a non-nil
  interface value).
\<close>

datatype go_any =
    AString string
  | AInt64 int
  | AFloat64 real
  | ABool bool
  | ASlice "go_any list"
  | AMap "(string \<times> go_any) list"
  | AStruct string "(string \<times> go_any) list"
  | APtr "go_any option"

text \<open>
  A Go map with \<^verbatim>\<open>interface{}\<close> keys panics at run time ("hash of unhashable type") when a
  key holds a slice or a map, on reads as well as on writes.
\<close>

fun hashable :: "go_any \<Rightarrow> bool" where
  "hashable (ASlice _) = False"
| "hashable (AMap _) = False"
| "hashable (AStruct _ fs) = list_all (\<lambda>f. hashable (snd f)) fs"
| "hashable _ = True"

text \<open>An \<^verbatim>\<open>error\<close> value is its message; a nil error is \<open>None\<close> of \<open>go_error option\<close>.\<close>

datatype go_error = Err string

fun Error_text :: "go_error \<Rightarrow> string" where
  "Error_text (Err s) = s"

section \<open>Protocol types\<close>

record Error =
  Code :: int
  Message :: string
  Data :: "go_any option"

record ClientInfo =
  Name :: string
  Version :: string

record InitializeParams =
  ProtocolVersion :: string
  Capabilities :: "(string \<times> go_any) list"
  ClientInfo :: "ClientInfo option"

record ServerInfo =
  Name :: string
  Version :: string

record InitializeResult =
  ProtocolVersion :: string
  Capabilities :: "(string \<times> go_any) list"
  ServerInfo :: "ServerInfo option"

record Tool =
  Name :: string
  Description :: string
  InputSchema :: "(string \<times> go_any) list"

record ToolCallParams =
  Name :: string
  Arguments :: "(string \<times> go_any) list"

record Content =
  Type :: string
  Text :: string

record ToolCallResult =
  Content :: "Content list"

record ResourceReadParams =
  URI :: string

record ResourceReadResult =
  Contents :: "Content list"
  MimeType :: string

text \<open>
  The envelope. \<open>Params\<close> is the raw JSON text (\<^verbatim>\<open>json.RawMessage\<close>); \<open>ID\<close> and \<open>Result\<close> are
  interfaces, \<open>Error\<close> is a pointer.
\<close>

record Message =
  JSONRPC :: string
  ID :: "go_any option"
  Method :: string
  Params :: string
  Result :: "go_any option"
  Error :: "Error option"

definition JSONRPCVersion :: string where
  "JSONRPCVersion = ''2.0''"

definition ProtocolVersion_const :: string where
  "ProtocolVersion_const = ''2024-11-05''"

definition ParseErrorCode :: int where "ParseErrorCode = - 32700"
definition InvalidRequestCode :: int where "InvalidRequestCode = - 32600"
definition MethodNotFoundCode :: int where "MethodNotFoundCode = - 32601"
definition InvalidParamsCode :: int where "InvalidParamsCode = - 32602"
definition InternalErrorCode :: int where "InternalErrorCode = - 32603"
definition ServerErrorCode :: int where "ServerErrorCode = - 32000"

text \<open>The struct values that the servers place in \<open>Result\<close>, as interface values.\<close>

definition Content_any :: "Content \<Rightarrow> go_any" where
  "Content_any c =
     AStruct ''Content'' [(''Type'', AString (Type c)), (''Text'', AString (Text c))]"

definition ToolCallResult_any :: "ToolCallResult \<Rightarrow> go_any" where
  "ToolCallResult_any r =
     AStruct ''ToolCallResult'' [(''Content'', ASlice (map Content_any (Content r)))]"

definition ResourceReadResult_any :: "ResourceReadResult \<Rightarrow> go_any" where
  "ResourceReadResult_any r =
     AStruct ''ResourceReadResult''
       [(''Contents'', ASlice (map Content_any (Contents r))),
        (''MimeType'', AString (MimeType r))]"

definition ServerInfo_any :: "ServerInfo \<Rightarrow> go_any" where
  "ServerInfo_any i =
     AStruct ''ServerInfo''
       [(''Name'', AString (ServerInfo.Name i)), (''Version'', AString (ServerInfo.Version i))]"

definition InitializeResult_any :: "InitializeResult \<Rightarrow> go_any" where
  "InitializeResult_any r =
     AStruct ''InitializeResult''
       [(''ProtocolVersion'', AString (InitializeResult.ProtocolVersion r)),
        (''Capabilities'', AMap (InitializeResult.Capabilities r)),
        (''ServerInfo'', APtr (map_option ServerInfo_any (ServerInfo r)))]"

definition Tool_any :: "Tool \<Rightarrow> go_any" where
  "Tool_any t =
     AStruct ''Tool''
       [(''Name'', AString (Tool.Name t)),
        (''Description'', AString (Description t)),
        (''InputSchema'', AMap (InputSchema t))]"

subsection \<open>Constructors and classification of messages\<close>

text \<open>
  \<^verbatim>\<open>NewRequest\<close> and \<^verbatim>\<open>NewNotification\<close> serialise the parameters with \<^verbatim>\<open>json.Marshal\<close> and drop
  its error; the serialiser is the argument \<open>marshal\<close>.
\<close>

definition NewRequest ::
  "('p \<Rightarrow> string) \<Rightarrow> go_any option \<Rightarrow> string \<Rightarrow> 'p \<Rightarrow> Message" where
  "NewRequest marshal rid method params =
     \<lparr>JSONRPC = JSONRPCVersion, ID = rid, Method = method, Params = marshal params,
      Result = None, Error = None\<rparr>"

definition NewResponse :: "go_any option \<Rightarrow> go_any option \<Rightarrow> Message" where
  "NewResponse rid result =
     \<lparr>JSONRPC = JSONRPCVersion, ID = rid, Method = [], Params = [],
      Result = result, Error = None\<rparr>"

definition NewErrorResponse ::
  "go_any option \<Rightarrow> int \<Rightarrow> string \<Rightarrow> go_any option \<Rightarrow> Message" where
  "NewErrorResponse rid code message data =
     \<lparr>JSONRPC = JSONRPCVersion, ID = rid, Method = [], Params = [],
      Result = None, Error = Some \<lparr>Code = code, Message = message, Data = data\<rparr>\<rparr>"

definition NewNotification :: "('p \<Rightarrow> string) \<Rightarrow> string \<Rightarrow> 'p \<Rightarrow> Message" where
  "NewNotification marshal method params =
     \<lparr>JSONRPC = JSONRPCVersion, ID = None, Method = method, Params = marshal params,
      Result = None, Error = None\<rparr>"

definition Validate :: "Message \<Rightarrow> go_error option" where
  "Validate m =
     (if JSONRPC m \<noteq> JSONRPCVersion
      then Some (Err (''invalid JSON-RPC version: '' @ JSONRPC m))
      else if Method m = [] \<and> Result m = None \<and> Error m = None
      then Some (Err ''message must have method, result, or error'')
      else None)"

definition IsRequest :: "Message \<Rightarrow> bool" where
  "IsRequest m \<longleftrightarrow> Method m \<noteq> [] \<and> ID m \<noteq> None"

definition IsResponse :: "Message \<Rightarrow> bool" where
  "IsResponse m \<longleftrightarrow> (Result m \<noteq> None \<or> Error m \<noteq> None) \<and> ID m \<noteq> None"

definition IsNotification :: "Message \<Rightarrow> bool" where
  "IsNotification m \<longleftrightarrow> Method m \<noteq> [] \<and> ID m = None"

section \<open>Message texts\<close>

text \<open>
  The program's Chinese message texts, as the UTF-8 bytes of the source's string literals.
\<close>

definition text_tool_exec_failed :: string where
  "text_tool_exec_failed =
     [CHR 0xE5, CHR 0xB7, CHR 0xA5, CHR 0xE5, CHR 0x85, CHR 0xB7, CHR 0xE6, CHR 0x89,
      CHR 0xA7, CHR 0xE8, CHR 0xA1, CHR 0x8C, CHR 0xE5, CHR 0xA4, CHR 0xB1, CHR 0xE8,
      CHR 0xB4, CHR 0xA5, CHR 0x3A, CHR 0x20]"

definition text_tool_not_found :: string where
  "text_tool_not_found =
     [CHR 0xE5, CHR 0xB7, CHR 0xA5, CHR 0xE5, CHR 0x85, CHR 0xB7, CHR 0xE6, CHR 0x9C,
      CHR 0xAA, CHR 0xE6, CHR 0x89, CHR 0xBE, CHR 0xE5, CHR 0x88, CHR 0xB0, CHR 0x3A,
      CHR 0x20]"

definition text_read_resource :: string where
  "text_read_resource =
     [CHR 0xE8, CHR 0xAF, CHR 0xBB, CHR 0xE5, CHR 0x8F, CHR 0x96, CHR 0xE8, CHR 0xB5,
      CHR 0x84, CHR 0xE6, CHR 0xBA, CHR 0x90, CHR 0x3A, CHR 0x20]"

definition text_tool :: string where
  "text_tool =
     [CHR 0xE5, CHR 0xB7, CHR 0xA5, CHR 0xE5, CHR 0x85, CHR 0xB7, CHR 0x20]"

definition text_called_with :: string where
  "text_called_with =
     [CHR 0x20, CHR 0xE8, CHR 0xA2, CHR 0xAB, CHR 0xE8, CHR 0xB0, CHR 0x83, CHR 0xE7,
      CHR 0x94, CHR 0xA8, CHR 0xEF, CHR 0xBC, CHR 0x8C, CHR 0xE5, CHR 0x8F, CHR 0x82,
      CHR 0xE6, CHR 0x95, CHR 0xB0, CHR 0x3A, CHR 0x20]"

definition text_conn_not_running :: string where
  "text_conn_not_running =
     [CHR 0xE8, CHR 0xBF, CHR 0x9E, CHR 0xE6, CHR 0x8E, CHR 0xA5, CHR 0xE6, CHR 0x9C,
      CHR 0xAA, CHR 0xE8, CHR 0xBF, CHR 0x90, CHR 0xE8, CHR 0xA1, CHR 0x8C]"

definition text_conn_running :: string where
  "text_conn_running =
     [CHR 0xE8, CHR 0xBF, CHR 0x9E, CHR 0xE6, CHR 0x8E, CHR 0xA5, CHR 0xE5, CHR 0xB7,
      CHR 0xB2, CHR 0xE5, CHR 0x9C, CHR 0xA8, CHR 0xE8, CHR 0xBF, CHR 0x90, CHR 0xE8,
      CHR 0xA1, CHR 0x8C]"

definition text_marshal_failed :: string where
  "text_marshal_failed =
     [CHR 0xE5, CHR 0xBA, CHR 0x8F, CHR 0xE5, CHR 0x88, CHR 0x97, CHR 0xE5, CHR 0x8C,
      CHR 0x96, CHR 0xE6, CHR 0xB6, CHR 0x88, CHR 0xE6, CHR 0x81, CHR 0xAF, CHR 0xE5,
      CHR 0xA4, CHR 0xB1, CHR 0xE8, CHR 0xB4, CHR 0xA5, CHR 0x3A, CHR 0x20]"

definition text_send_failed :: string where
  "text_send_failed =
     [CHR 0xE5, CHR 0x8F, CHR 0x91, CHR 0xE9, CHR 0x80, CHR 0x81, CHR 0xE6, CHR 0xB6,
      CHR 0x88, CHR 0xE6, CHR 0x81, CHR 0xAF, CHR 0xE5, CHR 0xA4, CHR 0xB1, CHR 0xE8,
      CHR 0xB4, CHR 0xA5, CHR 0x3A, CHR 0x20]"

definition text_parse_failed :: string where
  "text_parse_failed =
     [CHR 0xE8, CHR 0xA7, CHR 0xA3, CHR 0xE6, CHR 0x9E, CHR 0x90, CHR 0xE6, CHR 0xB6,
      CHR 0x88, CHR 0xE6, CHR 0x81, CHR 0xAF, CHR 0xE5, CHR 0xA4, CHR 0xB1, CHR 0xE8,
      CHR 0xB4, CHR 0xA5, CHR 0x3A, CHR 0x20]"




definition text_register_failed :: string where
  "text_register_failed =
     [CHR 0xE6, CHR 0xB3, CHR 0xA8, CHR 0xE5, CHR 0x86, CHR 0x8C, CHR 0xE5, CHR 0xB7,
      CHR 0xA5, CHR 0xE5, CHR 0x85, CHR 0xB7, CHR 0xE5, CHR 0xA4, CHR 0xB1, CHR 0xE8,
      CHR 0xB4, CHR 0xA5, CHR 0x3A, CHR 0x20]"

section \<open>The library functions the servers call\<close>

text \<open>
  \<^verbatim>\<open>encoding/json\<close>, \<^verbatim>\<open>fmt\<close> and the output stream belong to the Go library, not to the
  program: they are parameters of the model. Every theorem below holds for all of them.
  A decoder returns \<open>Inl\<close> of its error or \<open>Inr\<close> of the decoded value; \<open>marshal_Message\<close>
  is \<^verbatim>\<open>json.Marshal\<close> on a message, \<open>writer_Write\<close> the writer's \<^verbatim>\<open>Write\<close> (\<open>None\<close> is success) and
  \<open>fmt_v\<close> the verb \<^verbatim>\<open>%v\<close> on a map of arguments. Go leaves the order in which a
  \<^verbatim>\<open>range\<close> statement visits the entries of a map open: \<open>range_tools\<close> is the order in which
  the run-time system visits the entries of a tool table.
\<close>

record go_env =
  unmarshal_Message :: "string \<Rightarrow> go_error + Message"
  unmarshal_InitializeParams :: "string \<Rightarrow> go_error + InitializeParams"
  unmarshal_ToolCallParams :: "string \<Rightarrow> go_error + ToolCallParams"
  unmarshal_ResourceReadParams :: "string \<Rightarrow> go_error + ResourceReadParams"
  unmarshal_map :: "string \<Rightarrow> go_error + (string \<times> go_any) list"
  marshal_Message :: "Message \<Rightarrow> go_error + string"
  writer_Write :: "string \<Rightarrow> go_error option"
  fmt_v :: "(string \<times> go_any) list \<Rightarrow> string"
  range_tools :: "(string \<times> Tool) list \<Rightarrow> (string \<times> Tool) list"

section \<open>The base server\<close>

text \<open>
  A \<^verbatim>\<open>ToolExecutor\<close> runs a tool by name on its arguments and returns an error or a pointer
  to a result (which may be nil). The context argument is not read by the code modelled
  here.
\<close>

type_synonym ToolExecutor =
  "string \<Rightarrow> (string \<times> go_any) list \<Rightarrow> go_error + ToolCallResult option"

text \<open>
  \<^verbatim>\<open>BaseServer\<close>. The table \<open>tools\<close> is a Go map; it is kept as an association list with one
  entry per name. A nil \<open>toolExecutor\<close> or \<open>clientInfo\<close> is \<open>None\<close>. The resource handlers and
  the mutex are left out: no handler reads the former, and every handler runs as one step.
\<close>

record BaseServer =
  tools :: "(string \<times> Tool) list"
  toolExecutor :: "ToolExecutor option"
  initialized :: bool
  clientInfo :: "ClientInfo option"
  capabilities :: "(string \<times> go_any) list"

definition NewBaseServer :: BaseServer where
  "NewBaseServer =
     \<lparr>tools = [], toolExecutor = None, initialized = False, clientInfo = None,
      capabilities = []\<rparr>"

definition RegisterTool ::
  "'a BaseServer_scheme \<Rightarrow> Tool \<Rightarrow> 'a BaseServer_scheme \<times> go_error option" where
  "RegisterTool s tool =
     (if Tool.Name tool = [] then (s, Some (Err ''tool name cannot be empty''))
      else (s\<lparr>tools := AList.update (Tool.Name tool) tool (tools s)\<rparr>, None))"

definition GetTool :: "'a BaseServer_scheme \<Rightarrow> string \<Rightarrow> Tool option" where
  "GetTool s name = map_of (tools s) name"

definition GetTools :: "go_env \<Rightarrow> 'a BaseServer_scheme \<Rightarrow> Tool list" where
  "GetTools env s = map snd (range_tools env (tools s))"

definition SetCapabilities ::
  "'a BaseServer_scheme \<Rightarrow> (string \<times> go_any) list \<Rightarrow> 'a BaseServer_scheme" where
  "SetCapabilities s c = s\<lparr>capabilities := c\<rparr>"

definition SetToolExecutor ::
  "'a BaseServer_scheme \<Rightarrow> ToolExecutor option \<Rightarrow> 'a BaseServer_scheme" where
  "SetToolExecutor s executor = s\<lparr>toolExecutor := executor\<rparr>"

definition GetCapabilities :: "'a BaseServer_scheme \<Rightarrow> (string \<times> go_any) list" where
  "GetCapabilities s = capabilities s"

section \<open>The stdio server\<close>

text \<open>
  \<^verbatim>\<open>StdioServer\<close> embeds the base server. \<open>written\<close> is what the writer has received so far,
  one element per successful \<^verbatim>\<open>Write\<close>. \<open>cancelled\<close> is the state of the context
  (\<^verbatim>\<open>ctx.Done()\<close> is closed). \<open>stop_spawned\<close> records that \<^verbatim>\<open>go s.Stop()\<close> has started a
  goroutine which will call \<^verbatim>\<open>Stop\<close> at a moment that the scheduler chooses.
\<close>

record StdioServer = BaseServer +
  written :: "string list"
  cancelled :: bool
  stop_spawned :: bool

definition NewStdioServer :: StdioServer where
  "NewStdioServer =
     BaseServer.extend NewBaseServer
       \<lparr>written = [], cancelled = False, stop_spawned = False\<rparr>"

definition StdioServer_Stop :: "StdioServer \<Rightarrow> StdioServer \<times> go_error option" where
  "StdioServer_Stop s = (s\<lparr>cancelled := True\<rparr>, None)"

definition StdioServer_Start :: "StdioServer \<Rightarrow> StdioServer" where
  "StdioServer_Start s =
     SetCapabilities s
       [(''tools'', AMap [(''listChanged'', ABool True)]),
        (''resources'', AMap [(''listChanged'', ABool True)])]"

definition sendMessage :: "go_env \<Rightarrow> StdioServer \<Rightarrow> Message \<Rightarrow> StdioServer \<times> go_error option" where
  "sendMessage env s msg =
     (case marshal_Message env msg of
        Inl err \<Rightarrow> (s, Some (Err (text_marshal_failed @ Error_text err)))
      | Inr data \<Rightarrow>
          (case writer_Write env (data @ [CHR 0x0A]) of
             Some err \<Rightarrow> (s, Some (Err (text_send_failed @ Error_text err)))
           | None \<Rightarrow> (s\<lparr>written := written s @ [data @ [CHR 0x0A]]\<rparr>, None)))"

definition sendResponse ::
  "go_env \<Rightarrow> StdioServer \<Rightarrow> go_any option \<Rightarrow> go_any option \<Rightarrow> StdioServer \<times> go_error option" where
  "sendResponse env s rid result = sendMessage env s (NewResponse rid result)"

definition sendError ::
  "go_env \<Rightarrow> StdioServer \<Rightarrow> go_any option \<Rightarrow> int \<Rightarrow> string \<Rightarrow> go_any option
     \<Rightarrow> StdioServer \<times> go_error option" where
  "sendError env s rid code message data =
     sendMessage env s (NewErrorResponse rid code message data)"

definition StdioServer_handleInitialize ::
  "go_env \<Rightarrow> StdioServer \<Rightarrow> Message \<Rightarrow> StdioServer \<times> go_error option" where
  "StdioServer_handleInitialize env s msg =
     (if initialized s
      then sendError env s (ID msg) InvalidRequestCode ''already initialized'' None
      else
        (case unmarshal_InitializeParams env (Params msg) of
           Inl err \<Rightarrow> sendError env s (ID msg) InvalidParamsCode ''invalid initialize params'' None
         | Inr params \<Rightarrow>
             (let s1 = s\<lparr>clientInfo := InitializeParams.ClientInfo params\<rparr>;
                  s2 = s1\<lparr>initialized := True\<rparr>;
                  result =
                    \<lparr>ProtocolVersion = ProtocolVersion_const,
                     Capabilities = GetCapabilities s2,
                     ServerInfo = Some \<lparr>ServerInfo.Name = ''mcp-ai-server'', ServerInfo.Version = ''1.0.0''\<rparr>\<rparr>
              in sendResponse env s2 (ID msg) (Some (InitializeResult_any result)))))"

definition StdioServer_handleToolsList ::
  "go_env \<Rightarrow> StdioServer \<Rightarrow> Message \<Rightarrow> StdioServer \<times> go_error option" where
  "StdioServer_handleToolsList env s msg =
     (if \<not> initialized s
      then sendError env s (ID msg) InvalidRequestCode ''not initialized'' None
      else
        sendResponse env s (ID msg)
          (Some (AMap [(''tools'', ASlice (map Tool_any (GetTools env s)))])))"

definition StdioServer_handleToolCall ::
  "go_env \<Rightarrow> StdioServer \<Rightarrow> Message \<Rightarrow> StdioServer \<times> go_error option" where
  "StdioServer_handleToolCall env s msg =
     (if \<not> initialized s
      then sendError env s (ID msg) InvalidRequestCode ''not initialized'' None
      else
        (case unmarshal_ToolCallParams env (Params msg) of
           Inl err \<Rightarrow> sendError env s (ID msg) InvalidParamsCode ''invalid tool call params'' None
         | Inr params \<Rightarrow>
             (case GetTool s (ToolCallParams.Name params) of
                None \<Rightarrow>
                  sendError env s (ID msg) MethodNotFoundCode
                    (''tool not found: '' @ ToolCallParams.Name params) None
              | Some tool \<Rightarrow>
                  (case toolExecutor s of
                     Some executor \<Rightarrow>
                       (case executor (ToolCallParams.Name params) (Arguments params) of
                          Inl err \<Rightarrow>
                            sendError env s (ID msg) InternalErrorCode
                              (text_tool_exec_failed @ Error_text err) None
                        | Inr result \<Rightarrow>
                            sendResponse env s (ID msg)
                              (Some (APtr (map_option ToolCallResult_any result))))
                   | None \<Rightarrow>
                       sendResponse env s (ID msg)
                         (Some (ToolCallResult_any
                            \<lparr>Content =
                               [\<lparr>Type = ''text'',
                                 Text = text_tool @ Tool.Name tool @ text_called_with
                                   @ fmt_v env (Arguments params)\<rparr>]\<rparr>))))))"

definition StdioServer_handleResourceRead ::
  "go_env \<Rightarrow> StdioServer \<Rightarrow> Message \<Rightarrow> StdioServer \<times> go_error option" where
  "StdioServer_handleResourceRead env s msg =
     (if \<not> initialized s
      then sendError env s (ID msg) InvalidRequestCode ''not initialized'' None
      else
        (case unmarshal_ResourceReadParams env (Params msg) of
           Inl err \<Rightarrow>
             sendError env s (ID msg) InvalidParamsCode ''invalid resource read params'' None
         | Inr params \<Rightarrow>
             sendResponse env s (ID msg)
               (Some (ResourceReadResult_any
                  \<lparr>Contents = [\<lparr>Type = ''text'', Text = text_read_resource @ URI params\<rparr>],
                   MimeType = ''text/plain''\<rparr>))))"

definition StdioServer_handleShutdown ::
  "go_env \<Rightarrow> StdioServer \<Rightarrow> Message \<Rightarrow> StdioServer \<times> go_error option" where
  "StdioServer_handleShutdown env s msg =
     (case sendResponse env s (ID msg) None of
        (s1, Some err) \<Rightarrow> (s1, Some err)
      | (s1, None) \<Rightarrow> (s1\<lparr>stop_spawned := True\<rparr>, None))"

definition StdioServer_handleNotification ::
  "StdioServer \<Rightarrow> Message \<Rightarrow> StdioServer \<times> go_error option" where
  "StdioServer_handleNotification s msg = (s, None)"

definition StdioServer_handleRequest ::
  "go_env \<Rightarrow> StdioServer \<Rightarrow> Message \<Rightarrow> StdioServer \<times> go_error option" where
  "StdioServer_handleRequest env s msg =
     (if Method msg = ''initialize'' then StdioServer_handleInitialize env s msg
      else if Method msg = ''tools/list'' then StdioServer_handleToolsList env s msg
      else if Method msg = ''tools/call'' then StdioServer_handleToolCall env s msg
      else if Method msg = ''resources/read'' then StdioServer_handleResourceRead env s msg
      else if Method msg = ''shutdown'' then StdioServer_handleShutdown env s msg
      else sendError env s (ID msg) MethodNotFoundCode
             (''method not found: '' @ Method msg) None)"

definition StdioServer_handleMessage ::
  "go_env \<Rightarrow> StdioServer \<Rightarrow> Message \<Rightarrow> StdioServer \<times> go_error option" where
  "StdioServer_handleMessage env s msg =
     (case Validate msg of
        Some err \<Rightarrow> sendError env s (ID msg) ParseErrorCode (Error_text err) None
      | None \<Rightarrow>
          (if IsRequest msg then StdioServer_handleRequest env s msg
           else if IsResponse msg then (s, None)
           else if IsNotification msg then StdioServer_handleNotification s msg
           else sendError env s (ID msg) InvalidRequestCode ''invalid message'' None))"

text \<open>
  The message loop \<^verbatim>\<open>handleMessages\<close>. Each iteration first looks at the context and returns
  if it is cancelled; otherwise it decodes the next message: at the end of the input the
  loop returns, a message that does not decode is skipped, a decoded message goes to
  \<^verbatim>\<open>handleMessage\<close>, whose error is only logged. The argument lists the iterations: what
  the decoder yields in each, and whether the goroutine that a shutdown request started
  has called \<^verbatim>\<open>Stop\<close> by the time the iteration looks at the context. The result is the
  state in which the loop returns, or in which the listed iterations are used up.
\<close>

datatype decoded = Decoded Message | DecodeFailed go_error | EndOfInput

fun handleMessages ::
  "go_env \<Rightarrow> StdioServer \<Rightarrow> (bool \<times> decoded) list \<Rightarrow> StdioServer" where
  "handleMessages env s [] = s"
| "handleMessages env s ((stop_ran, d) # rest) =
     (let s1 = (if stop_ran \<and> stop_spawned s then fst (StdioServer_Stop s) else s)
      in if cancelled s1 then s1
         else
           (case d of
              EndOfInput \<Rightarrow> s1
            | DecodeFailed err \<Rightarrow> handleMessages env s1 rest
            | Decoded msg \<Rightarrow>
                handleMessages env (fst (StdioServer_handleMessage env s1 msg)) rest))"

section \<open>The WebSocket server\<close>

text \<open>
  \<^verbatim>\<open>WebSocketServer\<close> embeds the base server too; its handlers return the reply and an error
  (the pair of the Go function) instead of writing. \<open>conns\<close> is the set of open
  connections. The flag \<open>initialized\<close> is the server's: every connection shares it.
\<close>

record WebSocketServer = BaseServer +
  port :: int
  conns :: "nat list"

definition NewWebSocketServer :: "int \<Rightarrow> WebSocketServer" where
  "NewWebSocketServer p = BaseServer.extend NewBaseServer \<lparr>port = p, conns = []\<rparr>"

definition ws_error :: "go_any option \<Rightarrow> int \<Rightarrow> string \<Rightarrow> go_any option \<Rightarrow> Message" where
  "ws_error rid code message data =
     \<lparr>JSONRPC = ''2.0'', ID = rid, Method = [], Params = [], Result = None,
      Error = Some \<lparr>Code = code, Message = message, Data = data\<rparr>\<rparr>"

definition ws_result :: "go_any option \<Rightarrow> go_any option \<Rightarrow> Message" where
  "ws_result rid result =
     \<lparr>JSONRPC = ''2.0'', ID = rid, Method = [], Params = [], Result = result,
      Error = None\<rparr>"

definition WebSocketServer_handleInitialize ::
  "go_env \<Rightarrow> WebSocketServer \<Rightarrow> Message
     \<Rightarrow> WebSocketServer \<times> Message option \<times> go_error option" where
  "WebSocketServer_handleInitialize env s msg =
     (if initialized s
      then (s, Some (ws_error (ID msg) (- 32000) ''Already initialized'' None), None)
      else
        (let s1 =
               (case unmarshal_map env (Params msg) of
                  Inl err \<Rightarrow> s
                | Inr params \<Rightarrow>
                    (case map_of params ''clientInfo'' of
                       Some (AMap ci) \<Rightarrow>
                         (case map_of ci ''name'' of
                            Some (AString name) \<Rightarrow>
                              s\<lparr>clientInfo :=
                                   Some \<lparr>ClientInfo.Name = name, ClientInfo.Version = []\<rparr>\<rparr>
                          | _ \<Rightarrow> s)
                     | _ \<Rightarrow> s));
             s2 = s1\<lparr>initialized := True\<rparr>
         in (s2,
             Some (ws_result (ID msg)
               (Some (AMap
                  [(''protocolVersion'', AString ''2024-11-05''),
                   (''capabilities'', AMap [(''tools'', AMap [])]),
                   (''serverInfo'',
                      AMap [(''name'', AString ''mcp-ai-websocket''),
                            (''version'', AString ''1.0.0'')])]))),
             None)))"

definition WebSocketServer_handleToolsList ::
  "go_env \<Rightarrow> WebSocketServer \<Rightarrow> Message
     \<Rightarrow> WebSocketServer \<times> Message option \<times> go_error option" where
  "WebSocketServer_handleToolsList env s msg =
     (if \<not> initialized s
      then (s, Some (ws_error (ID msg) (- 32002) ''Not initialized'' None), None)
      else
        (s,
         Some (ws_result (ID msg)
           (Some (AMap
              [(''tools'', ASlice (map Tool_any (map snd (range_tools env (tools s)))))]))),
         None))"

definition WebSocketServer_handleToolCall ::
  "go_env \<Rightarrow> WebSocketServer \<Rightarrow> Message
     \<Rightarrow> WebSocketServer \<times> Message option \<times> go_error option" where
  "WebSocketServer_handleToolCall env s msg =
     (if \<not> initialized s
      then (s, Some (ws_error (ID msg) (- 32002) ''Not initialized'' None), None)
      else
        (case toolExecutor s of
           None \<Rightarrow>
             (s, Some (ws_error (ID msg) (- 32603) ''Tool executor not available'' None), None)
         | Some executor \<Rightarrow>
             (case unmarshal_map env (Params msg) of
                Inl err \<Rightarrow> (s, Some (ws_error (ID msg) (- 32602) ''Invalid params'' None), None)
              | Inr params \<Rightarrow>
                  (case map_of params ''name'' of
                     Some (AString toolName) \<Rightarrow>
                       (let arguments =
                              (case map_of params ''arguments'' of
                                 Some (AMap a) \<Rightarrow> a
                               | _ \<Rightarrow> [])
                        in case executor toolName arguments of
                             Inl err \<Rightarrow>
                               (s,
                                Some (ws_error (ID msg) (- 32603) ''Tool execution failed''
                                  (Some (AString (Error_text err)))),
                                None)
                           | Inr result \<Rightarrow>
                               (s,
                                Some (ws_result (ID msg)
                                  (Some (APtr (map_option ToolCallResult_any result)))),
                                None))
                   | _ \<Rightarrow>
                       (s, Some (ws_error (ID msg) (- 32602) ''Tool name is required'' None),
                        None)))))"

definition WebSocketServer_handleResourceRead ::
  "WebSocketServer \<Rightarrow> Message \<Rightarrow> WebSocketServer \<times> Message option \<times> go_error option" where
  "WebSocketServer_handleResourceRead s msg =
     (if \<not> initialized s
      then (s, Some (ws_error (ID msg) (- 32002) ''Not initialized'' None), None)
      else
        (s, Some (ws_error (ID msg) (- 32601) ''Resource reading not implemented'' None),
         None))"

definition WebSocketServer_handleShutdown ::
  "WebSocketServer \<Rightarrow> Message \<Rightarrow> WebSocketServer \<times> Message option \<times> go_error option" where
  "WebSocketServer_handleShutdown s msg =
     (s\<lparr>initialized := False\<rparr>, Some (ws_result (ID msg) None), None)"

definition WebSocketServer_handleMessage ::
  "go_env \<Rightarrow> WebSocketServer \<Rightarrow> string
     \<Rightarrow> WebSocketServer \<times> Message option \<times> go_error option" where
  "WebSocketServer_handleMessage env s message =
     (case unmarshal_Message env message of
        Inl err \<Rightarrow> (s, None, Some (Err (text_parse_failed @ Error_text err)))
      | Inr msg \<Rightarrow>
          (if Method msg = ''initialize'' then WebSocketServer_handleInitialize env s msg
           else if Method msg = ''tools/list'' then WebSocketServer_handleToolsList env s msg
           else if Method msg = ''tools/call'' then WebSocketServer_handleToolCall env s msg
           else if Method msg = ''resources/read''
             then WebSocketServer_handleResourceRead s msg
           else if Method msg = ''shutdown'' then WebSocketServer_handleShutdown s msg
           else
             (s,
              Some (ws_error (ID msg) (- 32601) ''Method not found''
                (Some (AString (''Unknown method: '' @ Method msg)))),
              None)))"

section \<open>The tool manager\<close>

text \<open>
  The five provider groups are distinct objects; the registry maps a tool name to one of
  them. What a group lists and how it runs a tool are the group's own business: a group
  is its list of tools and its executor.
\<close>

datatype provider = SystemTools | NetworkTools | DataTools | DatabaseTools | AITools

record ToolGroup =
  group_GetTools :: "Tool list"
  group_ExecuteTool :: ToolExecutor

record ToolManager =
  toolMap :: "string \<rightharpoonup> provider"
  systemTools :: ToolGroup
  networkTools :: ToolGroup
  dataTools :: ToolGroup
  databaseTools :: ToolGroup
  aiTools :: ToolGroup

fun group_of :: "ToolManager \<Rightarrow> provider \<Rightarrow> ToolGroup" where
  "group_of tm SystemTools = systemTools tm"
| "group_of tm NetworkTools = networkTools tm"
| "group_of tm DataTools = dataTools tm"
| "group_of tm DatabaseTools = databaseTools tm"
| "group_of tm AITools = aiTools tm"




definition ToolManager_GetTools :: "ToolManager \<Rightarrow> Tool list" where
  "ToolManager_GetTools tm =
     group_GetTools (systemTools tm) @ group_GetTools (networkTools tm)
       @ group_GetTools (dataTools tm) @ group_GetTools (databaseTools tm)
       @ group_GetTools (aiTools tm)"

definition ToolManager_ExecuteTool :: "ToolManager \<Rightarrow> ToolExecutor" where
  "ToolManager_ExecuteTool tm name arguments =
     (case toolMap tm name of
        None \<Rightarrow> Inl (Err (text_tool_not_found @ name))
      | Some g \<Rightarrow> group_ExecuteTool (group_of tm g) name arguments)"

section \<open>Building the servers\<close>

text \<open>
  The program registers every tool of the manager with the server and installs the
  manager as the server's executor (\<^verbatim>\<open>createStdioServer\<close> and \<^verbatim>\<open>createWebSocketServer\<close>).
  \<open>register_all\<close> is their loop over the manager's tools, which stops at the first
  failure.
\<close>

fun register_all ::
  "'a BaseServer_scheme \<Rightarrow> Tool list \<Rightarrow> go_error + 'a BaseServer_scheme" where
  "register_all s [] = Inr s"
| "register_all s (tool # ts) =
     (case RegisterTool s tool of
        (s1, Some err) \<Rightarrow> Inl (Err (text_register_failed @ Error_text err))
      | (s1, None) \<Rightarrow> register_all s1 ts)"

definition createStdioServer :: "ToolManager \<Rightarrow> go_error + StdioServer" where
  "createStdioServer toolManager =
     (case register_all NewStdioServer (ToolManager_GetTools toolManager) of
        Inl err \<Rightarrow> Inl err
      | Inr s \<Rightarrow> Inr (SetToolExecutor s (Some (ToolManager_ExecuteTool toolManager))))"

definition createWebSocketServer :: "ToolManager \<Rightarrow> int \<Rightarrow> go_error + WebSocketServer" where
  "createWebSocketServer toolManager p =
     (case register_all (NewWebSocketServer p) (ToolManager_GetTools toolManager) of
        Inl err \<Rightarrow> Inl err
      | Inr s \<Rightarrow> Inr (SetToolExecutor s (Some (ToolManager_ExecuteTool toolManager))))"

section \<open>The stdio connection\<close>

text \<open>A Go call either panics or returns.\<close>

datatype 'a run = Panics | Returns 'a

text \<open>
  \<^verbatim>\<open>stdioConnection\<close>. The pending table \<open>responses\<close> has interface keys (a nil interface
  is a key like any other) and pointer values: \<open>Some None\<close> is an entry that awaits its
  response, \<open>Some (Some m)\<close> an entry that holds it, \<open>None\<close> no entry. \<open>sent\<close> is what the
  writer has received; \<open>stopCh_closed\<close> tells whether the channel \<^verbatim>\<open>stopCh\<close> is closed.
\<close>

record stdioConnection =
  running :: bool
  responses :: "go_any option \<rightharpoonup> Message option"
  sent :: "string list"
  stopCh_closed :: bool

definition newStdioConnection :: stdioConnection where
  "newStdioConnection =
     \<lparr>running = False, responses = Map.empty, sent = [], stopCh_closed = False\<rparr>"

definition hashable_key :: "go_any option \<Rightarrow> bool" where
  "hashable_key k = (case k of None \<Rightarrow> True | Some v \<Rightarrow> hashable v)"

definition Start :: "stdioConnection \<Rightarrow> stdioConnection \<times> go_error option" where
  "Start c =
     (if running c then (c, Some (Err text_conn_running))
      else (c\<lparr>running := True\<rparr>, None))"

text \<open>
  \<^verbatim>\<open>Stop\<close> closes \<^verbatim>\<open>stopCh\<close>, and closing a closed channel panics: a connection that was
  stopped and started again panics when it is stopped again.
\<close>

definition Stop :: "stdioConnection \<Rightarrow> (stdioConnection \<times> go_error option) run" where
  "Stop c =
     (if \<not> running c then Returns (c, None)
      else if stopCh_closed c then Panics
      else Returns (c\<lparr>running := False, stopCh_closed := True\<rparr>, None))"

definition IsRunning :: "stdioConnection \<Rightarrow> bool" where
  "IsRunning c = running c"

definition SendMessage ::
  "go_env \<Rightarrow> stdioConnection \<Rightarrow> Message \<Rightarrow> (stdioConnection \<times> go_error option) run" where
  "SendMessage env c msg =
     (if \<not> IsRunning c then Returns (c, Some (Err text_conn_not_running))
      else
        (case marshal_Message env msg of
           Inl err \<Rightarrow> Returns (c, Some (Err (text_marshal_failed @ Error_text err)))
         | Inr data \<Rightarrow>
             (case writer_Write env (data @ [CHR 0x0A]) of
                Some err \<Rightarrow> Returns (c, Some (Err (text_send_failed @ Error_text err)))
              | None \<Rightarrow>
                  (let c1 = c\<lparr>sent := sent c @ [data @ [CHR 0x0A]]\<rparr>
                   in if IsRequest msg
                      then (if hashable_key (ID msg)
                            then Returns (c1\<lparr>responses := (responses c1)(ID msg \<mapsto> None)\<rparr>, None)
                            else Panics)
                      else Returns (c1, None)))))"

definition handleResponse :: "stdioConnection \<Rightarrow> Message \<Rightarrow> stdioConnection run" where
  "handleResponse c msg =
     (if IsResponse msg
      then (if \<not> hashable_key (ID msg) then Panics
            else if responses c (ID msg) \<noteq> None
            then Returns (c\<lparr>responses := (responses c)(ID msg \<mapsto> Some msg)\<rparr>)
            else Returns c)
      else Returns c)"

text \<open>
  One iteration of the loop of \<^verbatim>\<open>WaitForResponse\<close>, up to the sleep: the look-up under the
  read lock and, when a response is there, its removal.
\<close>

definition poll ::
  "go_any option \<Rightarrow> stdioConnection \<Rightarrow> (stdioConnection \<times> Message option) run" where
  "poll rid c =
     (if \<not> hashable_key rid then Panics
      else
        (case responses c rid of
           Some (Some response) \<Rightarrow>
             Returns (c\<lparr>responses := (responses c)(rid := None)\<rparr>, Some response)
         | _ \<Rightarrow> Returns (c, None)))"

text \<open>
  What the goroutines do to a connection: a caller starts or stops it or sends a message,
  the response loop hands a message that it took from the channel to \<^verbatim>\<open>handleResponse\<close>,
  a waiter runs one iteration of its loop. Each is one critical section of the mutex.
\<close>

datatype conn_event =
  Starts | Stops | Sends Message | Incoming Message | Polls "go_any option"

fun conn_step :: "go_env \<Rightarrow> stdioConnection \<Rightarrow> conn_event \<Rightarrow> stdioConnection run" where
  "conn_step env c Starts = Returns (fst (Start c))"
| "conn_step env c Stops =
     (case Stop c of Panics \<Rightarrow> Panics | Returns (c1, err) \<Rightarrow> Returns c1)"
| "conn_step env c (Sends msg) =
     (case SendMessage env c msg of Panics \<Rightarrow> Panics | Returns (c1, err) \<Rightarrow> Returns c1)"
| "conn_step env c (Incoming msg) = handleResponse c msg"
| "conn_step env c (Polls rid) =
     (case poll rid c of Panics \<Rightarrow> Panics | Returns (c1, r) \<Rightarrow> Returns c1)"

fun run_events :: "go_env \<Rightarrow> stdioConnection \<Rightarrow> conn_event list \<Rightarrow> stdioConnection run" where
  "run_events env c [] = Returns c"
| "run_events env c (e # es) =
     (case conn_step env c e of Panics \<Rightarrow> Panics | Returns c1 \<Rightarrow> run_events env c1 es)"

text \<open>
  \<^verbatim>\<open>WaitForResponse(id, timeout)\<close>. The clock and the other goroutines are the schedule:
  it has one element for each time the loop condition \<^verbatim>\<open>time.Since(start) < timeout\<close> is
  found true, and the element lists what the other goroutines did to the connection since
  the previous iteration. When the schedule is used up the timeout has elapsed and the
  function returns nil.
\<close>

fun WaitForResponse ::
  "go_env \<Rightarrow> go_any option \<Rightarrow> conn_event list list \<Rightarrow> stdioConnection
     \<Rightarrow> (stdioConnection \<times> Message option) run" where
  "WaitForResponse env rid [] c = Returns (c, None)"
| "WaitForResponse env rid (evs # sched) c =
     (case run_events env c evs of
        Panics \<Rightarrow> Panics
      | Returns c1 \<Rightarrow>
          (case poll rid c1 of
             Panics \<Rightarrow> Panics
           | Returns (c2, Some response) \<Rightarrow> Returns (c2, Some response)
           | Returns (c2, None) \<Rightarrow> WaitForResponse env rid sched c2))"

section \<open>Example inputs\<close>

text \<open>
  Concrete library functions and messages, on which the theorems below are instantiated.
  The example serialiser shows the error code and message of an error response and the
  result of a success response. The example decoder for frames reads the frame as the
  method name of a request with the identifier 1. The example decoders for parameters
  know one ill-typed text, in which the arguments of a tool call are a string: it decodes
  into a map but not into \<^verbatim>\<open>ToolCallParams\<close>; on any other text they return one fixed value
  each.
\<close>

fun example_render :: "go_any \<Rightarrow> string" where
  "example_render (AString x) = x"
| "example_render (AInt64 i) = ''int''"
| "example_render (AFloat64 r) = ''float''"
| "example_render (ABool b) = (if b then ''true'' else ''false'')"
| "example_render (ASlice xs) = ''['' @ concat (map example_render xs) @ '']''"
| "example_render (AMap fs) =
     ''{'' @ concat (map (\<lambda>f. fst f @ '':'' @ example_render (snd f) @ '';'') fs) @ ''}''"
| "example_render (AStruct n fs) =
     ''{'' @ concat (map (\<lambda>f. fst f @ '':'' @ example_render (snd f) @ '';'') fs) @ ''}''"
| "example_render (APtr None) = ''null''"
| "example_render (APtr (Some v)) = example_render v"

definition example_code_text :: "int \<Rightarrow> string" where
  "example_code_text c =
     (if c = - 32700 then ''-32700'' else if c = - 32600 then ''-32600''
      else if c = - 32601 then ''-32601'' else if c = - 32602 then ''-32602''
      else if c = - 32603 then ''-32603'' else if c = - 32000 then ''-32000''
      else if c = - 32002 then ''-32002'' else ''other'')"

definition example_marshal :: "Message \<Rightarrow> string" where
  "example_marshal m =
     (case Error m of
        Some e \<Rightarrow> ''error '' @ example_code_text (Code e) @ '' '' @ Message e
      | None \<Rightarrow>
          (case Result m of
             None \<Rightarrow> ''empty''
           | Some r \<Rightarrow> ''result '' @ example_render r))"

definition example_params_ill_typed :: string where
  \<open>example_params_ill_typed = ''{"name":"ghost","arguments":"oops"}''\<close>

definition example_env :: go_env where
  "example_env =
     \<lparr>unmarshal_Message =
        (\<lambda>b. Inr \<lparr>JSONRPC = ''2.0'', ID = Some (AFloat64 1), Method = b, Params = ''{}'',
                  Result = None, Error = None\<rparr>),
      unmarshal_InitializeParams =
        (\<lambda>b. Inr \<lparr>InitializeParams.ProtocolVersion = ''2024-11-05'',
                  InitializeParams.Capabilities = [],
                  ClientInfo = Some \<lparr>ClientInfo.Name = ''t'', ClientInfo.Version = ''1.0''\<rparr>\<rparr>),
      unmarshal_ToolCallParams =
        (\<lambda>b. if b = example_params_ill_typed
             then Inl (Err (''json: cannot unmarshal string into Go struct field ''
                    @ ''ToolCallParams.arguments of type map[string]interface {}''))
             else Inr \<lparr>ToolCallParams.Name = ''nonexistent_tool'', Arguments = []\<rparr>),
      unmarshal_ResourceReadParams = (\<lambda>b. Inr \<lparr>URI = ''file:///tmp/a.txt''\<rparr>),
      unmarshal_map =
        (\<lambda>b. if b = example_params_ill_typed
             then Inr [(''name'', AString ''ghost''), (''arguments'', AString ''oops'')]
             else Inr [(''name'', AString ''nonexistent_tool''), (''arguments'', AMap [])]),
      marshal_Message = (\<lambda>m. Inr (example_marshal m)),
      writer_Write = (\<lambda>b. None),
      fmt_v = (\<lambda>a. ''map[]''),
      range_tools = rev\<rparr>"

definition example_request :: "string \<Rightarrow> Message" where
  "example_request method =
     \<lparr>JSONRPC = ''2.0'', ID = Some (AFloat64 1), Method = method, Params = ''{}'',
      Result = None, Error = None\<rparr>"

text \<open>The error code of a reply, if the reply is there and has an error.\<close>

definition error_code :: "Message option \<Rightarrow> int option" where
  "error_code r = (case r of None \<Rightarrow> None | Some m \<Rightarrow> map_option Code (Error m))"

definition example_group :: "string list \<Rightarrow> ToolGroup" where
  "example_group names =
     \<lparr>group_GetTools =
        map (\<lambda>n. \<lparr>Tool.Name = n, Description = [], InputSchema = []\<rparr>) names,
      group_ExecuteTool =
        (\<lambda>name arguments. Inr (Some \<lparr>Content = [\<lparr>Type = ''text'', Text = name\<rparr>]\<rparr>))\<rparr>"


definition example_manager :: ToolManager where
  "example_manager =
     \<lparr>toolMap =
        [''file_read'' \<mapsto> SystemTools, ''x'' \<mapsto> SystemTools, ''http_get'' \<mapsto> NetworkTools,
         ''x'' \<mapsto> NetworkTools, ''hash'' \<mapsto> DataTools, ''db_query'' \<mapsto> DatabaseTools,
         ''ai_query'' \<mapsto> AITools],
      systemTools = example_group [''file_read'', ''x''],
      networkTools = example_group [''http_get'', ''x''],
      dataTools = example_group [''hash''],
      databaseTools = example_group [''db_query''],
      aiTools = example_group [''ai_query'']\<rparr>"

text \<open>A running connection that awaits the response to the request \<open>tools-1\<close>.\<close>

definition example_connection :: stdioConnection where
  "example_connection =
     \<lparr>running = True, responses = [Some (AString ''tools-1'') \<mapsto> None], sent = [],
      stopCh_closed = False\<rparr>"

definition example_response :: Message where
  "example_response = NewResponse (Some (AString ''tools-1'')) (Some (AString ''late''))"

section \<open>Notions of the statements\<close>



text \<open>The event hands a response with the identifier \<open>rid\<close> to the connection.\<close>

definition stores_response_for :: "go_any option \<Rightarrow> conn_event \<Rightarrow> bool" where
  "stores_response_for rid e =
     (case e of Incoming m \<Rightarrow> IsResponse m \<and> ID m = rid | _ \<Rightarrow> False)"

text \<open>The pending table holds no response for \<open>rid\<close>: no entry, or an entry that awaits.\<close>

definition no_response_stored :: "stdioConnection \<Rightarrow> go_any option \<Rightarrow> bool" where
  "no_response_stored c rid \<longleftrightarrow> responses c rid = None \<or> responses c rid = Some None"

text \<open>What a call returned, if it did not panic.\<close>

definition run_value :: "'a run \<Rightarrow> 'a option" where
  "run_value r = (case r of Panics \<Rightarrow> None | Returns x \<Rightarrow> Some x)"

section \<open>Classification of messages\<close>

lemma Validate_None_iff:
  "Validate m = None \<longleftrightarrow>
     JSONRPC m = JSONRPCVersion \<and> (Method m \<noteq> [] \<or> Result m \<noteq> None \<or> Error m \<noteq> None)"
  by (auto simp: Validate_def)

text \<open>
  Claim C1, as it is written, fails: a message with the right version that carries a
  method, an identifier and a result passes \<open>Validate\<close> and is both a request and a
  response.
\<close>

theorem validated_message_request_and_response:
  "Validate \<lparr>JSONRPC = ''2.0'', ID = Some (AInt64 1), Method = ''ping'', Params = [],
      Result = Some (AString ''pong''), Error = None\<rparr> = None
   \<and> IsRequest \<lparr>JSONRPC = ''2.0'', ID = Some (AInt64 1), Method = ''ping'', Params = [],
      Result = Some (AString ''pong''), Error = None\<rparr>
   \<and> IsResponse \<lparr>JSONRPC = ''2.0'', ID = Some (AInt64 1), Method = ''ping'', Params = [],
      Result = Some (AString ''pong''), Error = None\<rparr>"
  by (simp add: Validate_def IsRequest_def IsResponse_def JSONRPCVersion_def)

text \<open>
  Claim C1, amended: for a message that passes \<open>Validate\<close>, a notification is neither a
  request nor a response; the message is a request and a response at once exactly when
  it has a method, an identifier and a result or an error; none of the three predicates
  holds exactly when it has neither a method nor an identifier; and in every other case
  exactly one of the three holds.
\<close>

theorem validated_message_classification:
  "Validate m = None \<Longrightarrow>
     (((IsRequest m \<and> \<not> IsResponse m \<and> \<not> IsNotification m)
        \<or> (\<not> IsRequest m \<and> IsResponse m \<and> \<not> IsNotification m)
        \<or> (\<not> IsRequest m \<and> \<not> IsResponse m \<and> IsNotification m))
       \<longleftrightarrow>
       \<not> (Method m \<noteq> [] \<and> ID m \<noteq> None \<and> (Result m \<noteq> None \<or> Error m \<noteq> None))
       \<and> \<not> (Method m = [] \<and> ID m = None))
     \<and> (IsNotification m \<longrightarrow> \<not> IsRequest m \<and> \<not> IsResponse m)
     \<and> (IsRequest m \<and> IsResponse m \<longleftrightarrow>
          Method m \<noteq> [] \<and> ID m \<noteq> None \<and> (Result m \<noteq> None \<or> Error m \<noteq> None))
     \<and> (\<not> IsRequest m \<and> \<not> IsResponse m \<and> \<not> IsNotification m \<longleftrightarrow>
          Method m = [] \<and> ID m = None)"
  by (auto simp: Validate_None_iff IsRequest_def IsResponse_def IsNotification_def)

theorem validated_message_classification_witness:
  "Validate (example_request ''tools/list'') = None
   \<and> IsRequest (example_request ''tools/list'')
   \<and> \<not> IsResponse (example_request ''tools/list'')
   \<and> \<not> IsNotification (example_request ''tools/list'')"
  using validated_message_classification [of "example_request ''tools/list''"]
  by (simp add: example_request_def Validate_def JSONRPCVersion_def IsRequest_def
      IsResponse_def IsNotification_def)

section \<open>The reply to shutdown on stdio\<close>

text \<open>
  Claim C9: the stdio server's reply to a shutdown request is \<open>NewResponse\<close> with a nil
  result; that message has neither a result nor an error (nor a method), \<open>IsResponse\<close>
  is false on it and \<open>Validate\<close> returns an error on it.
\<close>

theorem stdio_shutdown_reply_is_empty:
  "StdioServer_handleShutdown env s msg =
     (case sendMessage env s (NewResponse (ID msg) None) of
        (s1, Some err) \<Rightarrow> (s1, Some err)
      | (s1, None) \<Rightarrow> (s1\<lparr>stop_spawned := True\<rparr>, None))
   \<and> Result (NewResponse (ID msg) None) = None
   \<and> Error (NewResponse (ID msg) None) = None
   \<and> Method (NewResponse (ID msg) None) = []
   \<and> \<not> IsResponse (NewResponse (ID msg) None)
   \<and> Validate (NewResponse (ID msg) None)
        = Some (Err ''message must have method, result, or error'')"
  by (simp add: StdioServer_handleShutdown_def sendResponse_def NewResponse_def IsResponse_def
      Validate_def JSONRPCVersion_def)

theorem stdio_shutdown_reply_is_empty_witness:
  "written (fst (StdioServer_handleShutdown example_env NewStdioServer
       (example_request ''shutdown''))) = [''empty'' @ [CHR 0x0A]]
   \<and> \<not> IsResponse (NewResponse (Some (AFloat64 1)) None)
   \<and> Validate (NewResponse (Some (AFloat64 1)) None)
        = Some (Err ''message must have method, result, or error'')"
  using stdio_shutdown_reply_is_empty [of example_env NewStdioServer "example_request ''shutdown''"]
  by (simp add: example_request_def example_env_def sendMessage_def NewResponse_def
      NewStdioServer_def NewBaseServer_def BaseServer.extend_def example_marshal_def)

section \<open>The session state machine\<close>

lemma sendMessage_session:
  "initialized (fst (sendMessage env s m)) = initialized s"
  "clientInfo (fst (sendMessage env s m)) = clientInfo s"
  "tools (fst (sendMessage env s m)) = tools s"
  "toolExecutor (fst (sendMessage env s m)) = toolExecutor s"
  "stop_spawned (fst (sendMessage env s m)) = stop_spawned s"
  "cancelled (fst (sendMessage env s m)) = cancelled s"
  by (simp_all add: sendMessage_def split: sum.splits option.splits)

lemma handleShutdown_session:
  "initialized (fst (StdioServer_handleShutdown env s msg)) = initialized s"
  "clientInfo (fst (StdioServer_handleShutdown env s msg)) = clientInfo s"
  "tools (fst (StdioServer_handleShutdown env s msg)) = tools s"
  "cancelled (fst (StdioServer_handleShutdown env s msg)) = cancelled s"
  "snd (StdioServer_handleShutdown env s msg) = None \<longrightarrow>
     stop_spawned (fst (StdioServer_handleShutdown env s msg))"
  by (simp_all add: StdioServer_handleShutdown_def sendResponse_def sendMessage_def
      split: sum.splits option.splits prod.splits)

lemma handleMessages_after_Stop:
  "stop_spawned s \<Longrightarrow> handleMessages env s ((True, d) # rest) = s\<lparr>cancelled := True\<rparr>"
  by (simp add: StdioServer_Stop_def)

lemma handleMessages_tools_list:
  "initialized s \<Longrightarrow> \<not> cancelled s \<Longrightarrow> JSONRPC msg = ''2.0'' \<Longrightarrow> ID msg \<noteq> None \<Longrightarrow>
   Method msg = ''tools/list'' \<Longrightarrow>
     handleMessages env s [(False, Decoded msg)]
       = fst (sendMessage env s
           \<lparr>JSONRPC = ''2.0'', ID = ID msg, Method = [], Params = [],
            Result =
              Some (AMap [(''tools'',
                ASlice (map Tool_any (map snd (range_tools env (tools s)))))]),
            Error = None\<rparr>)"
  by (simp add: StdioServer_handleMessage_def Validate_def JSONRPCVersion_def IsRequest_def
      StdioServer_handleRequest_def StdioServer_handleToolsList_def sendResponse_def
      NewResponse_def GetTools_def)

subsection \<open>Requests before initialize\<close>

text \<open>
  Claim C2, as it is written, fails on the WebSocket server: its reply to \<open>tools/list\<close>
  before \<open>initialize\<close> has the code -32002, not the invalid-request code -32600.
\<close>

theorem websocket_not_initialized_code:
  "\<not> initialized (NewWebSocketServer 8081)
   \<and> error_code (fst (snd (WebSocketServer_handleToolsList example_env
        (NewWebSocketServer 8081) (example_request ''tools/list'')))) = Some (- 32002)
   \<and> error_code (fst (snd (WebSocketServer_handleToolsList example_env
        (NewWebSocketServer 8081) (example_request ''tools/list''))))
      \<noteq> Some InvalidRequestCode"
  by (simp add: NewWebSocketServer_def NewBaseServer_def BaseServer.extend_def
      WebSocketServer_handleToolsList_def error_code_def ws_error_def InvalidRequestCode_def)

text \<open>
  Claim C2, amended: while the session is not initialized, a request with the method
  \<open>tools/list\<close>, \<open>tools/call\<close> or \<open>resources/read\<close> is answered by an error response without
  a result, which carries the identifier of the request, and the session state
  (\<open>initialized\<close> and \<open>clientInfo\<close>) stays as it is. On the stdio server the error has the
  invalid-request code -32600 and the message "not initialized"; on the WebSocket server
  it has the code -32002 and the message "Not initialized".
\<close>

theorem request_before_initialize:
  "\<not> initialized s \<Longrightarrow> \<not> initialized w \<Longrightarrow>
   Method msg = ''tools/list'' \<or> Method msg = ''tools/call''
     \<or> Method msg = ''resources/read'' \<Longrightarrow>
   unmarshal_Message env frame = Inr msg \<Longrightarrow>
     StdioServer_handleRequest env s msg
       = sendMessage env s
           \<lparr>JSONRPC = ''2.0'', ID = ID msg, Method = [], Params = [], Result = None,
            Error = Some \<lparr>Code = - 32600, Message = ''not initialized'', Data = None\<rparr>\<rparr>
     \<and> initialized (fst (StdioServer_handleRequest env s msg)) = initialized s
     \<and> clientInfo (fst (StdioServer_handleRequest env s msg)) = clientInfo s
     \<and> WebSocketServer_handleMessage env w frame
       = (w,
          Some \<lparr>JSONRPC = ''2.0'', ID = ID msg, Method = [], Params = [], Result = None,
                Error = Some \<lparr>Code = - 32002, Message = ''Not initialized'', Data = None\<rparr>\<rparr>,
          None)"
  by (auto simp: StdioServer_handleRequest_def StdioServer_handleToolsList_def
      StdioServer_handleToolCall_def StdioServer_handleResourceRead_def
      InvalidRequestCode_def sendError_def sendMessage_session NewErrorResponse_def
      JSONRPCVersion_def ws_error_def
      WebSocketServer_handleMessage_def WebSocketServer_handleToolsList_def
      WebSocketServer_handleToolCall_def WebSocketServer_handleResourceRead_def)

theorem request_before_initialize_witness:
  "\<not> initialized NewStdioServer \<and> \<not> initialized (NewWebSocketServer 8081)
   \<and> unmarshal_Message example_env ''tools/call'' = Inr (example_request ''tools/call'')
   \<and> written (fst (StdioServer_handleRequest example_env NewStdioServer
        (example_request ''tools/call'')))
      = [''error -32600 not initialized'' @ [CHR 0x0A]]
   \<and> error_code (fst (snd (WebSocketServer_handleMessage example_env
        (NewWebSocketServer 8081) ''tools/call''))) = Some (- 32002)"
  using request_before_initialize [of NewStdioServer "NewWebSocketServer 8081"
      "example_request ''tools/call''" example_env "''tools/call''"]
  by (simp add: NewWebSocketServer_def NewStdioServer_def NewBaseServer_def
      BaseServer.extend_def example_env_def example_request_def sendMessage_def
      error_code_def example_marshal_def example_code_text_def)

subsection \<open>A second initialize\<close>

text \<open>
  Claim C3, as it is written, fails on the WebSocket server: its reply to \<open>initialize\<close> on
  an initialized session has the code -32000, not the invalid-request code -32600.
\<close>

theorem websocket_already_initialized_code:
  "initialized ((NewWebSocketServer 8081)\<lparr>initialized := True\<rparr>)
   \<and> error_code (fst (snd (WebSocketServer_handleInitialize example_env
        ((NewWebSocketServer 8081)\<lparr>initialized := True\<rparr>)
        (example_request ''initialize'')))) = Some (- 32000)
   \<and> error_code (fst (snd (WebSocketServer_handleInitialize example_env
        ((NewWebSocketServer 8081)\<lparr>initialized := True\<rparr>)
        (example_request ''initialize'')))) \<noteq> Some InvalidRequestCode"
  by (simp add: WebSocketServer_handleInitialize_def error_code_def ws_error_def
      InvalidRequestCode_def)

text \<open>
  Claim C3, amended: while the session is initialized, an \<open>initialize\<close> request is answered
  by an error response without a result, which carries the identifier of the request,
  and the session state (\<open>initialized\<close> and \<open>clientInfo\<close>) stays as it is. On the stdio
  server the error has the invalid-request code -32600 and the message
  "already initialized"; on the WebSocket server it has the code -32000 and the message
  "Already initialized".
\<close>

theorem initialize_twice:
  "initialized s \<Longrightarrow> initialized w \<Longrightarrow> Method msg = ''initialize'' \<Longrightarrow>
   unmarshal_Message env frame = Inr msg \<Longrightarrow>
     StdioServer_handleRequest env s msg
       = sendMessage env s
           \<lparr>JSONRPC = ''2.0'', ID = ID msg, Method = [], Params = [], Result = None,
            Error = Some \<lparr>Code = - 32600, Message = ''already initialized'', Data = None\<rparr>\<rparr>
     \<and> initialized (fst (StdioServer_handleRequest env s msg)) = initialized s
     \<and> clientInfo (fst (StdioServer_handleRequest env s msg)) = clientInfo s
     \<and> WebSocketServer_handleMessage env w frame
       = (w,
          Some \<lparr>JSONRPC = ''2.0'', ID = ID msg, Method = [], Params = [], Result = None,
                Error = Some \<lparr>Code = - 32000, Message = ''Already initialized'',
                               Data = None\<rparr>\<rparr>,
          None)"
  by (simp add: StdioServer_handleRequest_def StdioServer_handleInitialize_def
      InvalidRequestCode_def sendError_def sendMessage_session NewErrorResponse_def
      JSONRPCVersion_def ws_error_def
      WebSocketServer_handleMessage_def WebSocketServer_handleInitialize_def)

theorem initialize_twice_witness:
  "initialized (NewStdioServer\<lparr>initialized := True\<rparr>)
   \<and> initialized ((NewWebSocketServer 8081)\<lparr>initialized := True\<rparr>)
   \<and> unmarshal_Message example_env ''initialize'' = Inr (example_request ''initialize'')
   \<and> written (fst (StdioServer_handleRequest example_env
        (NewStdioServer\<lparr>initialized := True\<rparr>) (example_request ''initialize'')))
      = [''error -32600 already initialized'' @ [CHR 0x0A]]
   \<and> error_code (fst (snd (WebSocketServer_handleMessage example_env
        ((NewWebSocketServer 8081)\<lparr>initialized := True\<rparr>) ''initialize'')))
      = Some (- 32000)"
  using initialize_twice [of "NewStdioServer\<lparr>initialized := True\<rparr>"
      "(NewWebSocketServer 8081)\<lparr>initialized := True\<rparr>" "example_request ''initialize''"
      example_env "''initialize''"]
  by (simp add: NewWebSocketServer_def NewStdioServer_def NewBaseServer_def
      BaseServer.extend_def example_env_def example_request_def sendMessage_def
      error_code_def example_marshal_def example_code_text_def)

subsection \<open>Shutdown\<close>

text \<open>
  Claim C4, as it is written, fails on the stdio server: after a shutdown request that was
  answered without an error, an initialized session is still initialized.
\<close>

theorem stdio_shutdown_keeps_initialized:
  "initialized (NewStdioServer\<lparr>initialized := True\<rparr>)
   \<and> snd (StdioServer_handleShutdown example_env (NewStdioServer\<lparr>initialized := True\<rparr>)
        (example_request ''shutdown'')) = None
   \<and> initialized (fst (StdioServer_handleShutdown example_env
        (NewStdioServer\<lparr>initialized := True\<rparr>) (example_request ''shutdown'')))"
  by (simp add: StdioServer_handleShutdown_def sendResponse_def sendMessage_def
      example_env_def NewResponse_def)

text \<open>
  Claim C4, amended: for both server variants and any prior session state, the reply to
  a shutdown request carries the identifier of the request and neither an error nor a
  result (the result is nil), so it is never an error response. The WebSocket server
  sets \<open>initialized\<close> to false, so that a subsequent \<open>initialize\<close> succeeds and a subsequent
  \<open>tools/list\<close> fails as not initialized (code -32002). The stdio server leaves
  \<open>initialized\<close> and \<open>clientInfo\<close> as they are and, once the reply is written, starts a
  goroutine that calls \<open>Stop\<close>. If that goroutine has cancelled the context when the
  message loop begins its next iteration, the loop returns without handling another
  message; if it has not, the loop handles the next message in the unchanged session
  state, so that a \<open>tools/list\<close> request on an initialized session is still answered with
  the list of tools.
\<close>

theorem shutdown_reply_and_state:
  "Method msg = ''shutdown'' \<Longrightarrow> unmarshal_Message env frame = Inr msg \<Longrightarrow>
   Method msg2 = ''initialize'' \<Longrightarrow> unmarshal_Message env frame2 = Inr msg2 \<Longrightarrow>
   Method msg3 = ''tools/list'' \<Longrightarrow> unmarshal_Message env frame3 = Inr msg3 \<Longrightarrow>
     StdioServer_handleRequest env s msg
       = (case sendMessage env s
                 \<lparr>JSONRPC = ''2.0'', ID = ID msg, Method = [], Params = [], Result = None,
                  Error = None\<rparr> of
            (s1, Some err) \<Rightarrow> (s1, Some err)
          | (s1, None) \<Rightarrow> (s1\<lparr>stop_spawned := True\<rparr>, None))
     \<and> initialized (fst (StdioServer_handleRequest env s msg)) = initialized s
     \<and> clientInfo (fst (StdioServer_handleRequest env s msg)) = clientInfo s
     \<and> (snd (StdioServer_handleRequest env s msg) = None \<longrightarrow>
          stop_spawned (fst (StdioServer_handleRequest env s msg))
          \<and> handleMessages env (fst (StdioServer_handleRequest env s msg)) ((True, d) # rest)
              = (fst (StdioServer_handleRequest env s msg))\<lparr>cancelled := True\<rparr>)
     \<and> (initialized s \<and> \<not> cancelled s \<and> JSONRPC msg3 = ''2.0'' \<and> ID msg3 \<noteq> None \<longrightarrow>
          handleMessages env (fst (StdioServer_handleRequest env s msg))
              [(False, Decoded msg3)]
            = fst (sendMessage env (fst (StdioServer_handleRequest env s msg))
                \<lparr>JSONRPC = ''2.0'', ID = ID msg3, Method = [], Params = [],
                 Result =
                   Some (AMap [(''tools'',
                     ASlice (map Tool_any (map snd (range_tools env (tools s)))))]),
                 Error = None\<rparr>))
     \<and> WebSocketServer_handleMessage env w frame
          = (w\<lparr>initialized := False\<rparr>,
             Some \<lparr>JSONRPC = ''2.0'', ID = ID msg, Method = [], Params = [], Result = None,
                   Error = None\<rparr>,
             None)
     \<and> initialized (fst (WebSocketServer_handleMessage env (w\<lparr>initialized := False\<rparr>) frame2))
     \<and> snd (WebSocketServer_handleMessage env (w\<lparr>initialized := False\<rparr>) frame2)
          = (Some \<lparr>JSONRPC = ''2.0'', ID = ID msg2, Method = [], Params = [],
                   Result =
                     Some (AMap
                       [(''protocolVersion'', AString ''2024-11-05''),
                        (''capabilities'', AMap [(''tools'', AMap [])]),
                        (''serverInfo'',
                           AMap [(''name'', AString ''mcp-ai-websocket''),
                                 (''version'', AString ''1.0.0'')])]),
                   Error = None\<rparr>,
             None)
     \<and> WebSocketServer_handleMessage env (w\<lparr>initialized := False\<rparr>) frame3
          = (w\<lparr>initialized := False\<rparr>,
             Some \<lparr>JSONRPC = ''2.0'', ID = ID msg3, Method = [], Params = [], Result = None,
                   Error = Some \<lparr>Code = - 32002, Message = ''Not initialized'',
                                  Data = None\<rparr>\<rparr>,
             None)"
proof -
  assume m: "Method msg = ''shutdown''" and f: "unmarshal_Message env frame = Inr msg"
    and m2: "Method msg2 = ''initialize''" and f2: "unmarshal_Message env frame2 = Inr msg2"
    and m3: "Method msg3 = ''tools/list''" and f3: "unmarshal_Message env frame3 = Inr msg3"
  have hr: "StdioServer_handleRequest env s msg = StdioServer_handleShutdown env s msg"
    using m by (simp add: StdioServer_handleRequest_def)
  have a: "StdioServer_handleRequest env s msg
       = (case sendMessage env s
                 \<lparr>JSONRPC = ''2.0'', ID = ID msg, Method = [], Params = [], Result = None,
                  Error = None\<rparr> of
            (s1, Some err) \<Rightarrow> (s1, Some err)
          | (s1, None) \<Rightarrow> (s1\<lparr>stop_spawned := True\<rparr>, None))"
    unfolding hr
    by (simp add: StdioServer_handleShutdown_def sendResponse_def NewResponse_def
        JSONRPCVersion_def)
  have i: "initialized (fst (StdioServer_handleRequest env s msg)) = initialized s"
    and ci: "clientInfo (fst (StdioServer_handleRequest env s msg)) = clientInfo s"
    unfolding hr by (simp_all add: handleShutdown_session)
  have b: "snd (StdioServer_handleRequest env s msg) = None \<longrightarrow>
          stop_spawned (fst (StdioServer_handleRequest env s msg))
          \<and> handleMessages env (fst (StdioServer_handleRequest env s msg)) ((True, d) # rest)
              = (fst (StdioServer_handleRequest env s msg))\<lparr>cancelled := True\<rparr>"
    unfolding hr using handleShutdown_session(5) [of env s msg] handleMessages_after_Stop by blast
  have c: "initialized s \<and> \<not> cancelled s \<and> JSONRPC msg3 = ''2.0'' \<and> ID msg3 \<noteq> None \<longrightarrow>
          handleMessages env (fst (StdioServer_handleRequest env s msg))
              [(False, Decoded msg3)]
            = fst (sendMessage env (fst (StdioServer_handleRequest env s msg))
                \<lparr>JSONRPC = ''2.0'', ID = ID msg3, Method = [], Params = [],
                 Result =
                   Some (AMap [(''tools'',
                     ASlice (map Tool_any (map snd (range_tools env (tools s)))))]),
                 Error = None\<rparr>)"
    unfolding hr
    using handleMessages_tools_list [of "fst (StdioServer_handleShutdown env s msg)" msg3 env] m3
    by (simp add: handleShutdown_session)
  have w1: "WebSocketServer_handleMessage env w frame
          = (w\<lparr>initialized := False\<rparr>,
             Some \<lparr>JSONRPC = ''2.0'', ID = ID msg, Method = [], Params = [], Result = None,
                   Error = None\<rparr>,
             None)"
    using m f by (simp add: WebSocketServer_handleMessage_def WebSocketServer_handleShutdown_def
        ws_result_def)
  have w2: "initialized (fst (WebSocketServer_handleMessage env (w\<lparr>initialized := False\<rparr>) frame2))"
    and w3: "snd (WebSocketServer_handleMessage env (w\<lparr>initialized := False\<rparr>) frame2)
          = (Some \<lparr>JSONRPC = ''2.0'', ID = ID msg2, Method = [], Params = [],
                   Result =
                     Some (AMap
                       [(''protocolVersion'', AString ''2024-11-05''),
                        (''capabilities'', AMap [(''tools'', AMap [])]),
                        (''serverInfo'',
                           AMap [(''name'', AString ''mcp-ai-websocket''),
                                 (''version'', AString ''1.0.0'')])]),
                   Error = None\<rparr>,
             None)"
    using m2 f2 by (simp_all add: WebSocketServer_handleMessage_def
        WebSocketServer_handleInitialize_def ws_result_def Let_def)
  have w4: "WebSocketServer_handleMessage env (w\<lparr>initialized := False\<rparr>) frame3
          = (w\<lparr>initialized := False\<rparr>,
             Some \<lparr>JSONRPC = ''2.0'', ID = ID msg3, Method = [], Params = [], Result = None,
                   Error = Some \<lparr>Code = - 32002, Message = ''Not initialized'',
                                  Data = None\<rparr>\<rparr>,
             None)"
    using m3 f3 by (simp add: WebSocketServer_handleMessage_def
        WebSocketServer_handleToolsList_def ws_error_def)
  show ?thesis
    by (intro conjI a i ci b c w1 w2 w3 w4)
qed

theorem shutdown_reply_and_state_witness:
  "unmarshal_Message example_env ''shutdown'' = Inr (example_request ''shutdown'')
   \<and> unmarshal_Message example_env ''initialize'' = Inr (example_request ''initialize'')
   \<and> unmarshal_Message example_env ''tools/list'' = Inr (example_request ''tools/list'')
   \<and> initialized (fst (StdioServer_handleRequest example_env
        (NewStdioServer\<lparr>initialized := True\<rparr>) (example_request ''shutdown'')))
   \<and> written (fst (StdioServer_handleRequest example_env
        (NewStdioServer\<lparr>initialized := True\<rparr>) (example_request ''shutdown'')))
      = [''empty'' @ [CHR 0x0A]]
   \<and> cancelled (handleMessages example_env
        (fst (StdioServer_handleRequest example_env
           (NewStdioServer\<lparr>initialized := True\<rparr>) (example_request ''shutdown'')))
        [(True, Decoded (example_request ''tools/list''))])
   \<and> written (handleMessages example_env
        (fst (StdioServer_handleRequest example_env
           (NewStdioServer\<lparr>initialized := True\<rparr>) (example_request ''shutdown'')))
        [(True, Decoded (example_request ''tools/list''))])
      = [''empty'' @ [CHR 0x0A]]
   \<and> written (handleMessages example_env
        (fst (StdioServer_handleRequest example_env
           (NewStdioServer\<lparr>initialized := True\<rparr>) (example_request ''shutdown'')))
        [(False, Decoded (example_request ''tools/list''))])
      = [''empty'' @ [CHR 0x0A], ''result {tools:[];}'' @ [CHR 0x0A]]
   \<and> \<not> initialized (fst (WebSocketServer_handleMessage example_env
        ((NewWebSocketServer 8081)\<lparr>initialized := True\<rparr>) ''shutdown''))
   \<and> initialized (fst (WebSocketServer_handleMessage example_env
        ((NewWebSocketServer 8081)\<lparr>initialized := True, initialized := False\<rparr>)
        ''initialize''))"
  using shutdown_reply_and_state [of "example_request ''shutdown''" example_env "''shutdown''"
      "example_request ''initialize''" "''initialize''"
      "example_request ''tools/list''" "''tools/list''"
      "NewStdioServer\<lparr>initialized := True\<rparr>"
      "Decoded (example_request ''tools/list'')" "[]"
      "(NewWebSocketServer 8081)\<lparr>initialized := True\<rparr>"]
  by (simp add: example_env_def example_request_def sendMessage_def example_marshal_def
      NewStdioServer_def NewBaseServer_def BaseServer.extend_def Let_def
      StdioServer_Stop_def StdioServer_handleMessage_def Validate_def JSONRPCVersion_def
      IsRequest_def StdioServer_handleRequest_def StdioServer_handleToolsList_def
      StdioServer_handleShutdown_def sendResponse_def NewResponse_def GetTools_def)

section \<open>Reading a resource\<close>

text \<open>
  Claim C8, as it is written, fails on the WebSocket server: on an initialized session
  its reply to \<open>resources/read\<close> is an error response with the code -32601.
\<close>

theorem websocket_resource_read_is_error:
  "initialized ((NewWebSocketServer 8081)\<lparr>initialized := True\<rparr>)
   \<and> fst (snd (WebSocketServer_handleResourceRead
        ((NewWebSocketServer 8081)\<lparr>initialized := True\<rparr>)
        (example_request ''resources/read'')))
      = Some \<lparr>JSONRPC = ''2.0'', ID = Some (AFloat64 1), Method = [], Params = [],
               Result = None,
               Error = Some \<lparr>Code = - 32601, Message = ''Resource reading not implemented'',
                              Data = None\<rparr>\<rparr>
   \<and> error_code (fst (snd (WebSocketServer_handleResourceRead
        ((NewWebSocketServer 8081)\<lparr>initialized := True\<rparr>)
        (example_request ''resources/read'')))) = Some (- 32601)"
  by (simp add: WebSocketServer_handleResourceRead_def error_code_def ws_error_def
      example_request_def)

text \<open>
  Claim C8, amended: on an initialized session of the stdio server, a \<open>resources/read\<close>
  request whose parameters decode is answered by a success response, which carries the
  identifier of the request and no error; its result is a \<^verbatim>\<open>ResourceReadResult\<close> whose
  contents list has the single entry of type "text" holding the placeholder text (a
  fixed prefix followed by the URI) and whose MIME type is "text/plain". On an
  initialized session of the WebSocket server the request is answered by an error
  response with the code -32601 and the message "Resource reading not implemented", and
  the state stays as it is.
\<close>

theorem resource_read_initialized:
  "initialized s \<Longrightarrow> initialized w \<Longrightarrow> Method msg = ''resources/read'' \<Longrightarrow>
   unmarshal_Message env frame = Inr msg \<Longrightarrow>
   unmarshal_ResourceReadParams env (Params msg) = Inr p \<Longrightarrow>
     StdioServer_handleRequest env s msg
       = sendMessage env s
           \<lparr>JSONRPC = ''2.0'', ID = ID msg, Method = [], Params = [],
            Result =
              Some (AStruct ''ResourceReadResult''
                [(''Contents'',
                    ASlice [AStruct ''Content''
                      [(''Type'', AString ''text''),
                       (''Text'', AString (text_read_resource @ URI p))]]),
                 (''MimeType'', AString ''text/plain'')]),
            Error = None\<rparr>
     \<and> initialized (fst (StdioServer_handleRequest env s msg)) = initialized s
     \<and> WebSocketServer_handleMessage env w frame
       = (w,
          Some \<lparr>JSONRPC = ''2.0'', ID = ID msg, Method = [], Params = [], Result = None,
                Error = Some \<lparr>Code = - 32601, Message = ''Resource reading not implemented'',
                               Data = None\<rparr>\<rparr>,
          None)"
  by (simp add: StdioServer_handleRequest_def StdioServer_handleResourceRead_def
      sendResponse_def NewResponse_def JSONRPCVersion_def ResourceReadResult_any_def
      Content_any_def ws_error_def sendMessage_session
      WebSocketServer_handleMessage_def WebSocketServer_handleResourceRead_def)

theorem resource_read_initialized_witness:
  "initialized (NewStdioServer\<lparr>initialized := True\<rparr>)
   \<and> initialized ((NewWebSocketServer 8081)\<lparr>initialized := True\<rparr>)
   \<and> unmarshal_Message example_env ''resources/read''
        = Inr (example_request ''resources/read'')
   \<and> unmarshal_ResourceReadParams example_env (Params (example_request ''resources/read''))
        = Inr \<lparr>URI = ''file:///tmp/a.txt''\<rparr>
   \<and> written (fst (StdioServer_handleRequest example_env
        (NewStdioServer\<lparr>initialized := True\<rparr>) (example_request ''resources/read'')))
      = [''result {Contents:[{Type:text;Text:'' @ text_read_resource
           @ ''file:///tmp/a.txt;}];MimeType:text/plain;}'' @ [CHR 0x0A]]
   \<and> error_code (fst (snd (WebSocketServer_handleMessage example_env
        ((NewWebSocketServer 8081)\<lparr>initialized := True\<rparr>) ''resources/read'')))
      = Some (- 32601)"
  using resource_read_initialized [of "NewStdioServer\<lparr>initialized := True\<rparr>"
      "(NewWebSocketServer 8081)\<lparr>initialized := True\<rparr>"
      "example_request ''resources/read''"
      example_env "''resources/read''" "\<lparr>URI = ''file:///tmp/a.txt''\<rparr>"]
  by (simp add: NewWebSocketServer_def NewStdioServer_def NewBaseServer_def
      BaseServer.extend_def example_env_def example_request_def sendMessage_def
      error_code_def example_marshal_def example_code_text_def)

section \<open>Calling an unknown tool\<close>

text \<open>
  A server that the program builds has the tool manager as its executor, and no handler
  replaces the executor.
\<close>

lemma register_all_executor:
  "register_all s ts = Inr s1 \<Longrightarrow>
     toolExecutor s1 = toolExecutor s \<and> initialized s1 = initialized s"
  by (induction ts arbitrary: s)
     (auto simp: RegisterTool_def split: if_splits prod.splits option.splits)

lemma createStdioServer_executor:
  "createStdioServer tm = Inr s \<Longrightarrow>
     toolExecutor s = Some (ToolManager_ExecuteTool tm) \<and> \<not> initialized s"
  by (auto simp: createStdioServer_def SetToolExecutor_def NewStdioServer_def
      NewBaseServer_def BaseServer.extend_def
      split: sum.splits dest!: register_all_executor)

lemma createWebSocketServer_executor:
  "createWebSocketServer tm p = Inr s \<Longrightarrow>
     toolExecutor s = Some (ToolManager_ExecuteTool tm) \<and> \<not> initialized s"
  by (auto simp: createWebSocketServer_def SetToolExecutor_def NewWebSocketServer_def
      NewBaseServer_def BaseServer.extend_def
      split: sum.splits dest!: register_all_executor)

lemma sendError_executor:
  "toolExecutor (fst (sendError env s i c t d)) = toolExecutor s"
  by (simp add: sendError_def sendMessage_session)

lemma sendResponse_executor:
  "toolExecutor (fst (sendResponse env s i r)) = toolExecutor s"
  by (simp add: sendResponse_def sendMessage_session)

lemma StdioServer_handleInitialize_executor:
  "toolExecutor (fst (StdioServer_handleInitialize env s msg)) = toolExecutor s"
  by (simp add: StdioServer_handleInitialize_def sendError_executor sendResponse_executor
      Let_def split: sum.splits)

lemma StdioServer_handleToolsList_executor:
  "toolExecutor (fst (StdioServer_handleToolsList env s msg)) = toolExecutor s"
  by (simp add: StdioServer_handleToolsList_def sendError_executor sendResponse_executor)

lemma StdioServer_handleToolCall_executor:
  "toolExecutor (fst (StdioServer_handleToolCall env s msg)) = toolExecutor s"
  by (simp add: StdioServer_handleToolCall_def sendError_executor sendResponse_executor
      split: sum.splits option.splits)

lemma StdioServer_handleResourceRead_executor:
  "toolExecutor (fst (StdioServer_handleResourceRead env s msg)) = toolExecutor s"
  by (simp add: StdioServer_handleResourceRead_def sendError_executor sendResponse_executor
      split: sum.splits)

lemma StdioServer_handleShutdown_executor:
  "toolExecutor (fst (StdioServer_handleShutdown env s msg)) = toolExecutor s"
  by (simp add: StdioServer_handleShutdown_def sendResponse_def sendMessage_def
      split: sum.splits option.splits prod.splits)

lemma StdioServer_handleMessage_executor:
  "toolExecutor (fst (StdioServer_handleMessage env s msg)) = toolExecutor s"
  by (simp add: StdioServer_handleMessage_def StdioServer_handleRequest_def
      StdioServer_handleInitialize_executor StdioServer_handleToolsList_executor
      StdioServer_handleToolCall_executor StdioServer_handleResourceRead_executor
      StdioServer_handleShutdown_executor StdioServer_handleNotification_def
      sendError_executor split: option.splits)

lemma WebSocketServer_handleInitialize_executor:
  "toolExecutor (fst (WebSocketServer_handleInitialize env s msg)) = toolExecutor s"
  by (simp add: WebSocketServer_handleInitialize_def Let_def
      split: sum.splits option.splits go_any.splits)

lemma WebSocketServer_handleToolCall_executor:
  "fst (WebSocketServer_handleToolCall env s msg) = s"
  by (simp add: WebSocketServer_handleToolCall_def Let_def
      split: sum.splits option.splits go_any.splits)

lemma WebSocketServer_handleMessage_executor:
  "toolExecutor (fst (WebSocketServer_handleMessage env s frame)) = toolExecutor s"
  by (simp add: WebSocketServer_handleMessage_def WebSocketServer_handleInitialize_executor
      WebSocketServer_handleToolsList_def WebSocketServer_handleToolCall_executor
      WebSocketServer_handleResourceRead_def WebSocketServer_handleShutdown_def
      split: sum.splits)

text \<open>
  Claim C7, as it is written, fails on the stdio server: parameters that name the
  unregistered tool \<open>ghost\<close> and give a string where the arguments belong do not decode
  into \<^verbatim>\<open>ToolCallParams\<close>, and the reply has the invalid-params code -32602, which is
  neither the method-not-found code nor the internal-error code.
\<close>

theorem stdio_ill_typed_arguments_invalid_params:
  "unmarshal_map example_env example_params_ill_typed
     = Inr [(''name'', AString ''ghost''), (''arguments'', AString ''oops'')]
   \<and> toolMap example_manager ''ghost'' = None
   \<and> StdioServer_handleToolCall example_env
        (NewStdioServer\<lparr>toolExecutor := Some (ToolManager_ExecuteTool example_manager),
           initialized := True\<rparr>)
        \<lparr>JSONRPC = ''2.0'', ID = Some (AFloat64 1), Method = ''tools/call'',
         Params = example_params_ill_typed, Result = None, Error = None\<rparr>
      = sendMessage example_env
          (NewStdioServer\<lparr>toolExecutor := Some (ToolManager_ExecuteTool example_manager),
             initialized := True\<rparr>)
          \<lparr>JSONRPC = ''2.0'', ID = Some (AFloat64 1), Method = [], Params = [],
           Result = None,
           Error = Some \<lparr>Code = - 32602, Message = ''invalid tool call params'',
                          Data = None\<rparr>\<rparr>
   \<and> written (fst (StdioServer_handleToolCall example_env
        (NewStdioServer\<lparr>toolExecutor := Some (ToolManager_ExecuteTool example_manager),
           initialized := True\<rparr>)
        \<lparr>JSONRPC = ''2.0'', ID = Some (AFloat64 1), Method = ''tools/call'',
         Params = example_params_ill_typed, Result = None, Error = None\<rparr>))
      = [''error -32602 invalid tool call params'' @ [CHR 0x0A]]
   \<and> (- 32602 :: int) \<noteq> MethodNotFoundCode \<and> (- 32602 :: int) \<noteq> InternalErrorCode"
  by (simp add: example_env_def example_manager_def StdioServer_handleToolCall_def
      MethodNotFoundCode_def InternalErrorCode_def
      sendError_def NewErrorResponse_def JSONRPCVersion_def InvalidParamsCode_def
      sendMessage_def example_marshal_def example_code_text_def
      NewStdioServer_def NewBaseServer_def BaseServer.extend_def)

text \<open>
  Claim C7, amended: on an initialized session whose executor is the tool manager, a
  \<open>tools/call\<close> request that names a tool outside the manager's registry is answered by
  exactly one message, an error response without a result that carries the identifier
  of the request, and no step of either handler panics. On the WebSocket server, whenever
  the parameters decode into a map with a string name, the code is -32603 and the data
  is the manager's message. On the stdio server, when the parameters decode into
  \<^verbatim>\<open>ToolCallParams\<close>, the code is the method-not-found code -32601 if the server's own tool
  table does not list the name and the internal-error code -32603 otherwise; when they
  do not decode into \<^verbatim>\<open>ToolCallParams\<close> (the arguments are not an object, say), the code is
  the invalid-params code -32602, whatever tool they name.
\<close>

theorem unknown_tool_call_is_error:
  "initialized s \<Longrightarrow> initialized w \<Longrightarrow>
   toolExecutor s = Some (ToolManager_ExecuteTool tm) \<Longrightarrow>
   toolExecutor w = Some (ToolManager_ExecuteTool tm) \<Longrightarrow>
   unmarshal_ToolCallParams env (Params msg) = Inr p \<Longrightarrow> ToolCallParams.Name p = name \<Longrightarrow>
   toolMap tm name = None \<Longrightarrow>
   unmarshal_ToolCallParams env (Params bad) = Inl err \<Longrightarrow>
   unmarshal_map env (Params wmsg) = Inr ps \<Longrightarrow> map_of ps ''name'' = Some (AString wname) \<Longrightarrow>
   toolMap tm wname = None \<Longrightarrow>
     StdioServer_handleToolCall env s msg
       = sendMessage env s
           \<lparr>JSONRPC = ''2.0'', ID = ID msg, Method = [], Params = [], Result = None,
            Error =
              Some \<lparr>Code = (if GetTool s name = None then - 32601 else - 32603),
                    Message =
                      (if GetTool s name = None then ''tool not found: '' @ name
                       else text_tool_exec_failed @ text_tool_not_found @ name),
                    Data = None\<rparr>\<rparr>
     \<and> StdioServer_handleToolCall env s bad
       = sendMessage env s
           \<lparr>JSONRPC = ''2.0'', ID = ID bad, Method = [], Params = [], Result = None,
            Error = Some \<lparr>Code = - 32602, Message = ''invalid tool call params'',
                           Data = None\<rparr>\<rparr>
     \<and> WebSocketServer_handleToolCall env w wmsg
          = (w,
             Some \<lparr>JSONRPC = ''2.0'', ID = ID wmsg, Method = [], Params = [], Result = None,
                   Error = Some \<lparr>Code = - 32603, Message = ''Tool execution failed'',
                                  Data = Some (AString (text_tool_not_found @ wname))\<rparr>\<rparr>,
             None)"
  by (cases "GetTool s name")
     (simp_all add: StdioServer_handleToolCall_def WebSocketServer_handleToolCall_def
      ToolManager_ExecuteTool_def sendError_def NewErrorResponse_def JSONRPCVersion_def
      ws_error_def MethodNotFoundCode_def InternalErrorCode_def InvalidParamsCode_def)

theorem unknown_tool_call_is_error_witness:
  "toolMap example_manager ''nonexistent_tool'' = None
   \<and> toolMap example_manager ''ghost'' = None
   \<and> written (fst (StdioServer_handleToolCall example_env
        (NewStdioServer\<lparr>toolExecutor := Some (ToolManager_ExecuteTool example_manager),
           initialized := True\<rparr>)
        (example_request ''tools/call'')))
      = [''error -32601 tool not found: nonexistent_tool'' @ [CHR 0x0A]]
   \<and> written (fst (StdioServer_handleToolCall example_env
        (NewStdioServer\<lparr>toolExecutor := Some (ToolManager_ExecuteTool example_manager),
           initialized := True\<rparr>)
        ((example_request ''tools/call'')\<lparr>Params := example_params_ill_typed\<rparr>)))
      = [''error -32602 invalid tool call params'' @ [CHR 0x0A]]
   \<and> error_code (fst (snd (WebSocketServer_handleToolCall example_env
        ((NewWebSocketServer 8081)
           \<lparr>toolExecutor := Some (ToolManager_ExecuteTool example_manager),
            initialized := True\<rparr>)
        ((example_request ''tools/call'')\<lparr>Params := example_params_ill_typed\<rparr>))))
      = Some (- 32603)"
  using unknown_tool_call_is_error
    [of "NewStdioServer\<lparr>toolExecutor := Some (ToolManager_ExecuteTool example_manager),
           initialized := True\<rparr>"
      "(NewWebSocketServer 8081)
         \<lparr>toolExecutor := Some (ToolManager_ExecuteTool example_manager),
          initialized := True\<rparr>"
      example_manager example_env "example_request ''tools/call''"
      "\<lparr>ToolCallParams.Name = ''nonexistent_tool'', Arguments = []\<rparr>" "''nonexistent_tool''"
      "(example_request ''tools/call'')\<lparr>Params := example_params_ill_typed\<rparr>"
      "Err (''json: cannot unmarshal string into Go struct field ''
                    @ ''ToolCallParams.arguments of type map[string]interface {}'')"
      "(example_request ''tools/call'')\<lparr>Params := example_params_ill_typed\<rparr>"
      "[(''name'', AString ''ghost''), (''arguments'', AString ''oops'')]" "''ghost''"]
  by (simp add: example_manager_def example_env_def example_request_def sendMessage_def
      error_code_def GetTool_def NewStdioServer_def example_params_ill_typed_def
      NewBaseServer_def BaseServer.extend_def example_marshal_def example_code_text_def)

section \<open>The tool registry\<close>






section \<open>Waiting for a response\<close>

lemma poll_no_response:
  "hashable_key rid \<Longrightarrow> no_response_stored c rid \<Longrightarrow> poll rid c = Returns (c, None)"
  by (auto simp: poll_def no_response_stored_def)

lemma conn_step_quiet:
  assumes "conn_step env c e = Returns c1" "\<not> stores_response_for rid e"
    "no_response_stored c rid"
  shows "no_response_stored c1 rid"
proof (cases e)
  case Starts
  with assms show ?thesis
    by (auto simp: Start_def no_response_stored_def split: if_splits)
next
  case Stops
  with assms show ?thesis
    by (auto simp: Stop_def no_response_stored_def split: if_splits run.splits)
next
  case (Sends msg)
  with assms show ?thesis
    by (auto simp: SendMessage_def Let_def no_response_stored_def
        split: if_splits sum.splits option.splits run.splits)
next
  case (Incoming msg)
  with assms show ?thesis
    by (auto simp: handleResponse_def stores_response_for_def no_response_stored_def
        split: if_splits)
next
  case (Polls k)
  with assms show ?thesis
    by (auto simp: poll_def no_response_stored_def split: if_splits option.splits run.splits)
qed

lemma run_events_quiet:
  "run_events env c es = Returns c1 \<Longrightarrow> \<forall>e \<in> set es. \<not> stores_response_for rid e \<Longrightarrow>
   no_response_stored c rid \<Longrightarrow> no_response_stored c1 rid"
proof (induction es arbitrary: c)
  case Nil
  then show ?case by simp
next
  case (Cons e es)
  then obtain c2 where s: "conn_step env c e = Returns c2" and r: "run_events env c2 es = Returns c1"
    by (auto split: run.splits)
  from conn_step_quiet [OF s] Cons.prems have "no_response_stored c2 rid" by simp
  with Cons.IH [OF r] Cons.prems show ?case by simp
qed

lemma run_events_append:
  "run_events env c (es @ fs) =
     (case run_events env c es of Panics \<Rightarrow> Panics | Returns c1 \<Rightarrow> run_events env c1 fs)"
  by (induction es arbitrary: c) (auto split: run.splits)

lemma WaitForResponse_timeout:
  "hashable_key rid \<Longrightarrow> no_response_stored c rid \<Longrightarrow>
   \<forall>e \<in> set (concat sched). \<not> stores_response_for rid e \<Longrightarrow>
   run_events env c (concat sched) = Returns c1 \<Longrightarrow>
   WaitForResponse env rid sched c = Returns (c1, None)"
proof (induction sched arbitrary: c)
  case Nil
  then show ?case by simp
next
  case (Cons es sched)
  from Cons.prems(4) obtain c2 where
    a: "run_events env c es = Returns c2" and b: "run_events env c2 (concat sched) = Returns c1"
    by (auto simp: run_events_append split: run.splits)
  from run_events_quiet [OF a] Cons.prems have q: "no_response_stored c2 rid" by simp
  have p: "poll rid c2 = Returns (c2, None)"
    using poll_no_response Cons.prems(1) q by blast
  from Cons.IH [OF Cons.prems(1) q _ b] Cons.prems(3)
  have "WaitForResponse env rid sched c2 = Returns (c1, None)" by simp
  with a p show ?case by simp
qed

text \<open>
  Claim C6: when no response for an identifier is stored before the timeout elapses,
  \<^verbatim>\<open>WaitForResponse\<close> returns nil, and a second wait on the same identifier returns nil
  too: a response that arrives late does not revive the entry. The code keeps the first
  half and breaks the second. If no response for \<open>rid\<close> is handed to the connection before
  the timeout elapses, \<^verbatim>\<open>WaitForResponse\<close> returns nil, but the entry of \<open>rid\<close> is still in
  the pending table: only the exit of the loop that found a response deletes it. A
  response for \<open>rid\<close> that arrives afterwards therefore passes the test of
  \<^verbatim>\<open>handleResponse\<close> for an existing entry and is stored, and the next wait on \<open>rid\<close>
  returns this late response instead of nil.
\<close>

theorem wait_timeout_then_late_response:
  "hashable_key rid \<Longrightarrow> responses c rid = Some None \<Longrightarrow>
   \<forall>e \<in> set (concat sched). \<not> stores_response_for rid e \<Longrightarrow>
   run_events env c (concat sched) = Returns c1 \<Longrightarrow>
   IsResponse late \<Longrightarrow> ID late = rid \<Longrightarrow>
     WaitForResponse env rid sched c = Returns (c1, None)
     \<and> WaitForResponse env rid (replicate n []) c = Returns (c, None)
     \<and> handleResponse c late = Returns (c\<lparr>responses := (responses c)(rid \<mapsto> Some late)\<rparr>)
     \<and> WaitForResponse env rid ([Incoming late] # sched2) c
          = Returns (c\<lparr>responses := (responses c)(rid := None)\<rparr>, Some late)"
proof (intro conjI)
  assume h: "hashable_key rid" and r: "responses c rid = Some None"
    and q: "\<forall>e \<in> set (concat sched). \<not> stores_response_for rid e"
    and e: "run_events env c (concat sched) = Returns c1"
    and l: "IsResponse late" "ID late = rid"
  have n: "no_response_stored c rid" using r by (simp add: no_response_stored_def)
  show "WaitForResponse env rid sched c = Returns (c1, None)"
    using WaitForResponse_timeout [OF h n q e] .
  have "run_events env c (concat (replicate n [])) = Returns c"
    by (induction n) simp_all
  then show "WaitForResponse env rid (replicate n []) c = Returns (c, None)"
    using WaitForResponse_timeout [OF h n, of "replicate n []" env c] by simp
  show hr: "handleResponse c late = Returns (c\<lparr>responses := (responses c)(rid \<mapsto> Some late)\<rparr>)"
    using h r l by (simp add: handleResponse_def)
  show "WaitForResponse env rid ([Incoming late] # sched2) c
          = Returns (c\<lparr>responses := (responses c)(rid := None)\<rparr>, Some late)"
    using h by (simp add: hr poll_def)
qed

text \<open>
  The failing input: on a running connection that awaits the response to \<open>tools-1\<close>, a
  first wait runs three iterations while nothing arrives; it returns nil and leaves the
  connection as it was, the awaiting entry included. The response to \<open>tools-1\<close> arrives
  after that, and a second wait on \<open>tools-1\<close> returns it.
\<close>

theorem second_wait_returns_late_response:
  "hashable_key (Some (AString ''tools-1''))
   \<and> responses example_connection (Some (AString ''tools-1'')) = Some None
   \<and> IsResponse example_response \<and> ID example_response = Some (AString ''tools-1'')
   \<and> run_value (WaitForResponse example_env (Some (AString ''tools-1'')) [[], [], []]
        example_connection) = Some (example_connection, None)
   \<and> map_option snd (run_value (WaitForResponse example_env (Some (AString ''tools-1''))
        [[Incoming example_response], []] example_connection)) = Some (Some example_response)
   \<and> map_option snd (run_value (WaitForResponse example_env (Some (AString ''tools-1''))
        [[Incoming example_response], []] example_connection)) \<noteq> Some None"
  using wait_timeout_then_late_response [of "Some (AString ''tools-1'')" example_connection
      "[[], [], []]" example_env example_connection example_response 0 "[[]]"]
  by (simp add: run_value_def example_connection_def example_response_def poll_def
      hashable_key_def handleResponse_def IsResponse_def NewResponse_def
      stores_response_for_def)

section \<open>The keys of the pending table\<close>

lemma conn_step_keys:
  assumes "conn_step env c e = Returns c1" "responses c1 k \<noteq> None"
  shows "responses c k \<noteq> None \<or> (\<exists>m. e = Sends m \<and> IsRequest m \<and> ID m = k)"
proof (cases e)
  case Starts
  with assms show ?thesis
    by (auto simp: Start_def split: if_splits)
next
  case Stops
  with assms show ?thesis
    by (auto simp: Stop_def split: if_splits run.splits)
next
  case (Sends msg)
  with assms show ?thesis
    by (auto simp: SendMessage_def Let_def
        split: if_splits sum.splits option.splits run.splits)
next
  case (Incoming msg)
  with assms show ?thesis
    by (auto simp: handleResponse_def split: if_splits)
next
  case (Polls r)
  with assms show ?thesis
    by (auto simp: poll_def split: if_splits option.splits run.splits)
qed

lemma run_events_keys:
  "run_events env c es = Returns c1 \<Longrightarrow> responses c1 k \<noteq> None \<Longrightarrow>
   responses c k \<noteq> None \<or> (\<exists>m. Sends m \<in> set es \<and> IsRequest m \<and> ID m = k)"
proof (induction es arbitrary: c)
  case Nil
  then show ?case by simp
next
  case (Cons e es)
  then obtain c2 where s: "conn_step env c e = Returns c2" and r: "run_events env c2 es = Returns c1"
    by (auto split: run.splits)
  from Cons.IH [OF r Cons.prems(2)] conn_step_keys [OF s, of k]
  show ?case by auto
qed

text \<open>
  A connection that is stopped, started again and stopped again panics, since \<^verbatim>\<open>Stop\<close>
  closes a channel that is closed already.
\<close>

lemma Stop_twice_panics:
  "run_events env newStdioConnection [Starts, Stops, Starts, Stops] = Panics"
  by (simp add: newStdioConnection_def Start_def Stop_def)

text \<open>
  Claim C10: after any sequence of operations on a new connection, every key of the
  pending table is the identifier of a message with \<open>IsRequest\<close> true that \<^verbatim>\<open>SendMessage\<close>
  has sent before. \<^verbatim>\<open>handleResponse\<close> on a response whose identifier has no entry leaves
  the connection as it is (if the identifier is a slice or a map the look-up panics,
  which adds no entry either), and on a message that is not a response it leaves the
  connection as it is.
\<close>

theorem pending_keys_registered_by_SendMessage:
  "run_events env newStdioConnection es = Returns c \<Longrightarrow> responses c k \<noteq> None \<Longrightarrow>
   responses c' (ID m) = None \<Longrightarrow> \<not> IsResponse m' \<Longrightarrow>
     (\<exists>msg. Sends msg \<in> set es \<and> IsRequest msg \<and> ID msg = k)
     \<and> handleResponse c' m
          = (if IsResponse m \<and> \<not> hashable_key (ID m) then Panics else Returns c')
     \<and> handleResponse c'' m' = Returns c''"
  using run_events_keys [of env newStdioConnection es c k]
  by (auto simp: newStdioConnection_def handleResponse_def)

theorem pending_keys_registered_by_SendMessage_witness:
  "run_events example_env newStdioConnection
      [Starts, Sends (example_request ''tools/list''), Incoming example_response,
       Incoming (example_request ''notifications/progress'')]
     = Returns \<lparr>running = True, responses = [Some (AFloat64 1) \<mapsto> None],
                sent = [''empty'' @ [CHR 0x0A]], stopCh_closed = False\<rparr>
   \<and> responses \<lparr>running = True, responses = [Some (AFloat64 1) \<mapsto> None],
                sent = [''empty'' @ [CHR 0x0A]], stopCh_closed = False\<rparr>
         (Some (AFloat64 1)) \<noteq> None
   \<and> responses newStdioConnection (ID example_response) = None
   \<and> \<not> IsResponse (example_request ''notifications/progress'')
   \<and> handleResponse newStdioConnection example_response = Returns newStdioConnection"
  using pending_keys_registered_by_SendMessage [of example_env "[Starts, Sends (example_request ''tools/list''),
       Incoming example_response, Incoming (example_request ''notifications/progress'')]"
      "\<lparr>running = True, responses = [Some (AFloat64 1) \<mapsto> None],
                sent = [''empty'' @ [CHR 0x0A]], stopCh_closed = False\<rparr>" "Some (AFloat64 1)"
      newStdioConnection example_response "example_request ''notifications/progress''"
      newStdioConnection]
  by (simp add: newStdioConnection_def Start_def SendMessage_def IsRunning_def
      handleResponse_def example_env_def example_request_def example_response_def
      IsRequest_def IsResponse_def NewResponse_def hashable_key_def example_marshal_def)

end
